theory Spec2Isabelle
  imports Complex_Main
begin

section \<open>Mnemosyne: the versioned knowledge-graph engine over a graph store\<close>

text \<open>
  A shallow embedding of \<^verbatim>\<open>Neo4jStorageProvider\<close>.
  The graph store is a list of \<^verbatim>\<open>:Entity\<close> nodes and a list of \<^verbatim>\<open>RELATES_TO\<close>
  relationships, both in the order in which the store returns them; each Cypher query of
  the source is written out as the list operation it performs. JavaScript numbers that hold
  instants and versions are integers, the ones that hold scores, confidences, limits and
  vector components are real numbers (rounding, NaN and infinities are not represented).
  \<^verbatim>\<open>Date.now()\<close> and \<^verbatim>\<open>uuidv4()\<close> are oracles carried by the state: the k-th call
  returns the k-th value of an arbitrary sequence. Every store round-trip is taken to
  succeed unless the query itself is invalid; the errors of the model are the ones the
  code raises.
\<close>

subsection \<open>JavaScript idioms\<close>

datatype error = Error string

datatype 'a nullable = Null | Val 'a

text \<open>\<^verbatim>\<open>x || d\<close> on an optional number: \<^verbatim>\<open>undefined\<close> and \<^verbatim>\<open>0\<close> are falsy.\<close>

definition num_or :: "'a::zero option \<Rightarrow> 'a \<Rightarrow> 'a" where
  "num_or x d = (case x of None \<Rightarrow> d | Some v \<Rightarrow> if v = 0 then d else v)"

text \<open>\<^verbatim>\<open>x || null\<close> on an optional number and on an optional string.\<close>

definition num_or_null :: "'a::zero option \<Rightarrow> 'a option" where
  "num_or_null x = (case x of None \<Rightarrow> None | Some v \<Rightarrow> if v = 0 then None else Some v)"

definition str_or_null :: "string option \<Rightarrow> string option" where
  "str_or_null x = (case x of None \<Rightarrow> None | Some v \<Rightarrow> if v = [] then None else Some v)"

text \<open>
  A JSON value of a metadata bag (a number, or the text of any other value), a bag as its
  keys and values in order, and \<^verbatim>\<open>Object.assign(target, source)\<close> on bags.
\<close>

datatype json = J_number int | J_text string

type_synonym bag = "(string \<times> json) list"

fun assign_key :: "string \<Rightarrow> json \<Rightarrow> bag \<Rightarrow> bag" where
  "assign_key k v [] = [(k, v)]"
| "assign_key k v ((k', v') # rest) =
     (if k = k' then (k, v) # rest else (k', v') # assign_key k v rest)"

definition Object_assign :: "bag \<Rightarrow> bag \<Rightarrow> bag" where
  "Object_assign target source = foldl (\<lambda>t (k, v). assign_key k v t) target source"

text \<open>\<^verbatim>\<open>Array.prototype.join\<close>.\<close>

fun join :: "string \<Rightarrow> string list \<Rightarrow> string" where
  "join sep [] = []"
| "join sep [x] = x"
| "join sep (x # y # ys) = x @ sep @ join sep (y # ys)"

subsection \<open>Data model\<close>

type_synonym uuid = nat

text \<open>
  A stored \<^verbatim>\<open>:Entity\<close> node. \<open>elem\<close> is the store's own identity of the node, the one
  a relationship is attached to; \<open>n_id\<close> is the \<^verbatim>\<open>id\<close> property. A property set to
  \<^verbatim>\<open>null\<close> is absent (\<open>None\<close>). The observations are held as the array whose JSON text
  the store keeps.
\<close>

record node =
  elem :: nat
  n_id :: uuid
  n_name :: string
  n_entityType :: string
  n_observations :: "string list"
  n_version :: nat
  n_createdAt :: int
  n_updatedAt :: int
  n_validFrom :: int
  n_validTo :: "int option"
  n_changedBy :: "string option"
  n_embedding :: "real list option"

text \<open>A stored \<^verbatim>\<open>RELATES_TO\<close> relationship between the nodes \<open>r_start\<close> and \<open>r_end\<close>.\<close>

record edge =
  r_start :: nat
  r_end :: nat
  r_id :: uuid
  r_relationType :: string
  r_strength :: "real option"
  r_confidence :: "real option"
  r_metadata :: "bag option"
  r_version :: nat
  r_createdAt :: int
  r_updatedAt :: int
  r_validFrom :: int
  r_validTo :: "int option"
  r_changedBy :: "string option"

text \<open>\<^verbatim>\<open>ExtendedEntity\<close>: what the provider takes and returns for an entity.\<close>

record entity =
  e_name :: string
  e_entityType :: string
  e_observations :: "string list"
  e_id :: "uuid option"
  e_version :: "nat option"
  e_createdAt :: "int option"
  e_updatedAt :: "int option"
  e_validFrom :: "int option"
  e_validTo :: "int nullable option"
  e_changedBy :: "string nullable option"

text \<open>
  \<^verbatim>\<open>Relation\<close> as \<^verbatim>\<open>relationshipToRelation\<close> builds it: exactly these six properties.
\<close>

record relation =
  rel_from :: string
  rel_to :: string
  rel_relationType :: string
  rel_strength :: "real option"
  rel_confidence :: "real option"
  rel_metadata :: bag

text \<open>
  A relation as a caller passes it to \<^verbatim>\<open>createRelations\<close> and \<^verbatim>\<open>updateRelation\<close>
  (\<^verbatim>\<open>Relation\<close> read through \<^verbatim>\<open>ExtendedRelation\<close>).
\<close>

record relationInput =
  ri_from :: string
  ri_to :: string
  ri_relationType :: string
  ri_strength :: "real option"
  ri_confidence :: "real option"
  ri_metadata :: "bag option"
  ri_createdAt :: "int option"
  ri_updatedAt :: "int option"
  ri_validFrom :: "int option"
  ri_changedBy :: "string option"

text \<open>
  The optional \<^verbatim>\<open>diagnostics\<close> of a result: the steps of a semantic search (each as
  \<^verbatim>\<open>step:status\<close>, instants and counts left out), or the \<^verbatim>\<open>decay_info\<close> of a decayed
  graph (enabled, halfLifeDays, minConfidence, decayFactor).
\<close>

datatype diag = Steps "string list" | Decay_info bool real real real

text \<open>\<^verbatim>\<open>timeTaken\<close>, a difference of two wall-clock readings, is not represented.\<close>

record knowledgeGraph =
  entities :: "entity list"
  relations :: "relation list"
  total :: "nat option"
  diagnostics :: "diag option"

text \<open>The store together with the two oracles of the runtime.\<close>

record world =
  nodes :: "node list"
  edges :: "edge list"
  elems :: nat
  clock :: "nat \<Rightarrow> int"
  ticks :: nat
  uuids :: "nat \<Rightarrow> uuid"
  draws :: nat

definition Date_now :: "world \<Rightarrow> int \<times> world" where
  "Date_now w = (clock w (ticks w), w\<lparr>ticks := Suc (ticks w)\<rparr>)"

definition uuidv4 :: "world \<Rightarrow> uuid \<times> world" where
  "uuidv4 w = (uuids w (draws w), w\<lparr>draws := Suc (draws w)\<rparr>)"

type_synonym embeddingService = "string \<Rightarrow> error + real list"

subsection \<open>Store primitives\<close>

text \<open>\<^verbatim>\<open>CREATE (e:Entity {...})\<close>: the new node gets a fresh identity and comes last.\<close>

definition create_node :: "node \<Rightarrow> world \<Rightarrow> world" where
  "create_node n w = w\<lparr>nodes := nodes w @ [n\<lparr>elem := elems w\<rparr>], elems := Suc (elems w)\<rparr>"

text \<open>
  \<^verbatim>\<open>MATCH (from:Entity {..}) MATCH (to:Entity {..}) CREATE (from)-[r:RELATES_TO {..}]->(to)\<close>:
  one relationship for every pair of matched nodes.
\<close>

definition create_edges :: "node list \<Rightarrow> node list \<Rightarrow> edge \<Rightarrow> world \<Rightarrow> world" where
  "create_edges froms tos props w =
     w\<lparr>edges := edges w @
        map (\<lambda>(f, t). props\<lparr>r_start := elem f, r_end := elem t\<rparr>) (List.product froms tos)\<rparr>"

definition nodes_named :: "world \<Rightarrow> string \<Rightarrow> node list" where
  "nodes_named w nm = filter (\<lambda>n. n_name n = nm) (nodes w)"

definition nodes_with_id :: "world \<Rightarrow> uuid \<Rightarrow> node list" where
  "nodes_with_id w i = filter (\<lambda>n. n_id n = i) (nodes w)"

text \<open>\<^verbatim>\<open>MATCH (e:Entity {name: $name}) WHERE e.validTo IS NULL\<close>.\<close>

definition current_nodes :: "world \<Rightarrow> string \<Rightarrow> node list" where
  "current_nodes w nm = filter (\<lambda>n. n_name n = nm \<and> n_validTo n = None) (nodes w)"

text \<open>The name of the node a relationship starts from or ends at.\<close>

definition names_of_elem :: "world \<Rightarrow> nat \<Rightarrow> string list" where
  "names_of_elem w k = map n_name (filter (\<lambda>n. elem n = k) (nodes w))"

subsection \<open>Conversions\<close>

text \<open>A property that the node does not hold reads as \<^verbatim>\<open>undefined\<close>, never as \<^verbatim>\<open>null\<close>.\<close>

definition nodeToEntity :: "node \<Rightarrow> entity" where
  "nodeToEntity n =
     \<lparr>e_name = n_name n, e_entityType = n_entityType n, e_observations = n_observations n,
      e_id = Some (n_id n), e_version = Some (n_version n), e_createdAt = Some (n_createdAt n),
      e_updatedAt = Some (n_updatedAt n), e_validFrom = Some (n_validFrom n),
      e_validTo = map_option Val (n_validTo n), e_changedBy = map_option Val (n_changedBy n)\<rparr>"

text \<open>
  \<open>now\<close> is the \<^verbatim>\<open>Date.now()\<close> the function reads first. The store keeps a bag as its
  JSON text; parsing gives the bag back.
\<close>

definition relationshipToRelation :: "edge \<Rightarrow> string \<Rightarrow> string \<Rightarrow> int \<Rightarrow> relation" where
  "relationshipToRelation rel fromNode toNode now =
     \<lparr>rel_from = fromNode, rel_to = toNode, rel_relationType = r_relationType rel,
      rel_strength = r_strength rel, rel_confidence = r_confidence rel,
      rel_metadata =
        (let createdAt = num_or (Some (r_createdAt rel)) now;
             updatedAt = num_or (Some (r_updatedAt rel)) now;
             metadata = [(''createdAt'', J_number createdAt), (''updatedAt'', J_number updatedAt)]
         in case r_metadata rel of
              None \<Rightarrow> metadata
            | Some parsedMetadata \<Rightarrow> Object_assign metadata parsedMetadata)\<rparr>"

subsection \<open>createEntities\<close>

definition embed_entity :: "embeddingService option \<Rightarrow> entity \<Rightarrow> real list option" where
  "embed_entity svc entity =
     (case svc of
        None \<Rightarrow> None
      | Some service \<Rightarrow>
          (case service (join ''\<newline>'' (e_observations entity)) of
             Inl err \<Rightarrow> None
           | Inr v \<Rightarrow> Some v))"

definition strip_null :: "'a nullable option \<Rightarrow> 'a option" where
  "strip_null x = (case x of Some (Val v) \<Rightarrow> Some v | _ \<Rightarrow> None)"

definition new_entity_node :: "entity \<Rightarrow> uuid \<Rightarrow> int \<Rightarrow> real list option \<Rightarrow> node" where
  "new_entity_node entity entityId now embedding =
     \<lparr>elem = 0, n_id = entityId, n_name = e_name entity, n_entityType = e_entityType entity,
      n_observations = e_observations entity, n_version = 1,
      n_createdAt = num_or (e_createdAt entity) now,
      n_updatedAt = num_or (e_updatedAt entity) now,
      n_validFrom = num_or (e_validFrom entity) now,
      n_validTo = None,
      n_changedBy = str_or_null (strip_null (e_changedBy entity)),
      n_embedding = embedding\<rparr>"

fun createEntities_loop ::
  "embeddingService option \<Rightarrow> entity list \<Rightarrow> entity list \<Rightarrow> world \<Rightarrow> entity list \<times> world" where
  "createEntities_loop svc [] createdEntities w = (createdEntities, w)"
| "createEntities_loop svc (entity # rest) createdEntities w =
     (let (now, w1) = Date_now w;
          (entityId, w2) = uuidv4 w1;
          embedding = embed_entity svc entity;
          n = new_entity_node entity entityId now embedding;
          w3 = create_node n w2;
          createdEntity = nodeToEntity n
      in createEntities_loop svc rest (createdEntities @ [createdEntity]) w3)"

definition createEntities ::
  "embeddingService option \<Rightarrow> entity list \<Rightarrow> world \<Rightarrow> error + entity list \<times> world" where
  "createEntities svc ents w =
     (if ents = [] then Inr ([], w) else Inr (createEntities_loop svc ents [] w))"

subsection \<open>createRelations\<close>

definition new_relation_props :: "relationInput \<Rightarrow> uuid \<Rightarrow> int \<Rightarrow> edge" where
  "new_relation_props relation relationId now =
     \<lparr>r_start = 0, r_end = 0, r_id = relationId, r_relationType = ri_relationType relation,
      r_strength = num_or_null (ri_strength relation),
      r_confidence = num_or_null (ri_confidence relation),
      r_metadata = ri_metadata relation,
      r_version = 1,
      r_createdAt = num_or (ri_createdAt relation) now,
      r_updatedAt = num_or (ri_updatedAt relation) now,
      r_validFrom = num_or (ri_validFrom relation) now,
      r_validTo = None,
      r_changedBy = str_or_null (ri_changedBy relation)\<rparr>"

text \<open>
  The check query matches the two endpoints by \<^verbatim>\<open>name\<close> alone; it returns one record for
  every pair of matching nodes, and the relation is skipped when there is none.
\<close>

fun createRelations_loop ::
  "relationInput list \<Rightarrow> relation list \<Rightarrow> world \<Rightarrow> relation list \<times> world" where
  "createRelations_loop [] createdRelations w = (createdRelations, w)"
| "createRelations_loop (relation # rest) createdRelations w =
     (let (now, w1) = Date_now w;
          (relationId, w2) = uuidv4 w1;
          froms = nodes_named w2 (ri_from relation);
          tos = nodes_named w2 (ri_to relation)
      in case List.product froms tos of
           [] \<Rightarrow> createRelations_loop rest createdRelations w2
         | (fromNode, toNode) # others \<Rightarrow>
             (let props = new_relation_props relation relationId now;
                  w3 = create_edges froms tos props w2;
                  (now', w4) = Date_now w3;
                  createdRelation =
                    relationshipToRelation props (n_name fromNode) (n_name toNode) now'
              in createRelations_loop rest (createdRelations @ [createdRelation]) w4))"

definition createRelations ::
  "relationInput list \<Rightarrow> world \<Rightarrow> error + relation list \<times> world" where
  "createRelations rels w =
     (if rels = [] then Inr ([], w) else Inr (createRelations_loop rels [] w))"

subsection \<open>addObservations\<close>

record observationInput =
  o_entityName :: string
  o_contents :: "string list"

record observationResult =
  res_entityName :: string
  addedObservations :: "string list"

text \<open>
  The current relationships leaving and entering a node, each with the node at its other
  end (\<^verbatim>\<open>collect(DISTINCT {rel: r, to: to})\<close>, the placeholder of an unmatched
  \<^verbatim>\<open>OPTIONAL MATCH\<close> left out, as the loops skip it).
\<close>

definition outgoing :: "world \<Rightarrow> node \<Rightarrow> (edge \<times> node) list" where
  "outgoing w e =
     concat (map (\<lambda>r. map (\<lambda>to. (r, to)) (filter (\<lambda>n. elem n = r_end r) (nodes w)))
               (filter (\<lambda>r. r_start r = elem e \<and> r_validTo r = None) (edges w)))"

definition incoming :: "world \<Rightarrow> node \<Rightarrow> (edge \<times> node) list" where
  "incoming w e =
     concat (map (\<lambda>r. map (\<lambda>from. (r, from)) (filter (\<lambda>n. elem n = r_start r) (nodes w)))
               (filter (\<lambda>r. r_end r = elem e \<and> r_validTo r = None) (edges w)))"

text \<open>
  \<^verbatim>\<open>MATCH (e:Entity {id: $id}) SET e.validTo = $now\<close>, then the same for every current
  relationship leaving or entering such a node.
\<close>

definition invalidate_with_edges :: "uuid \<Rightarrow> int \<Rightarrow> world \<Rightarrow> world" where
  "invalidate_with_edges i now w =
     (let ks = map elem (nodes_with_id w i)
      in w\<lparr>nodes := map (\<lambda>n. if n_id n = i then n\<lparr>n_validTo := Some now\<rparr> else n) (nodes w),
           edges := map (\<lambda>r. if r_validTo r = None \<and> (r_start r \<in> set ks \<or> r_end r \<in> set ks)
                              then r\<lparr>r_validTo := Some now\<rparr> else r) (edges w)\<rparr>)"

text \<open>\<^verbatim>\<open>MATCH (e:Entity {id: $id}) SET e.validTo = $now\<close> alone, as \<^verbatim>\<open>deleteObservations\<close> does.\<close>

definition invalidate :: "uuid \<Rightarrow> int \<Rightarrow> world \<Rightarrow> world" where
  "invalidate i now w =
     w\<lparr>nodes := map (\<lambda>n. if n_id n = i then n\<lparr>n_validTo := Some now\<rparr> else n) (nodes w)\<rparr>"

definition new_version_node :: "node \<Rightarrow> uuid \<Rightarrow> string list \<Rightarrow> int \<Rightarrow> node" where
  "new_version_node currentNode newEntityId obs now =
     \<lparr>elem = 0, n_id = newEntityId, n_name = n_name currentNode,
      n_entityType = n_entityType currentNode, n_observations = obs,
      n_version = num_or (Some (n_version currentNode)) 0 + 1,
      n_createdAt = n_createdAt currentNode, n_updatedAt = now, n_validFrom = now,
      n_validTo = None, n_changedBy = None, n_embedding = None\<rparr>"

text \<open>The properties a relationship keeps when it is recreated on the new version.\<close>

definition carried_props :: "edge \<Rightarrow> uuid \<Rightarrow> int \<Rightarrow> int \<Rightarrow> edge" where
  "carried_props relProps newRelId createdAt now =
     \<lparr>r_start = 0, r_end = 0, r_id = newRelId, r_relationType = r_relationType relProps,
      r_strength = (case r_strength relProps of None \<Rightarrow> Some (9 / 10) | Some s \<Rightarrow> Some s),
      r_confidence = (case r_confidence relProps of None \<Rightarrow> Some (95 / 100) | Some c \<Rightarrow> Some c),
      r_metadata = r_metadata relProps,
      r_version = num_or (Some (r_version relProps)) 1,
      r_createdAt = createdAt, r_updatedAt = now, r_validFrom = now, r_validTo = None,
      r_changedBy = None\<rparr>"

text \<open>\<^verbatim>\<open>relProps.createdAt || Date.now()\<close>: the clock is read only when the left side is falsy.\<close>

definition createdAt_or_now :: "edge \<Rightarrow> world \<Rightarrow> int \<times> world" where
  "createdAt_or_now relProps w =
     (if r_createdAt relProps = 0 then Date_now w else (r_createdAt relProps, w))"

fun recreate_outgoing :: "(edge \<times> node) list \<Rightarrow> uuid \<Rightarrow> int \<Rightarrow> world \<Rightarrow> world" where
  "recreate_outgoing [] newEntityId now w = w"
| "recreate_outgoing ((relProps, to) # rest) newEntityId now w =
     (let (newRelId, w1) = uuidv4 w;
          (createdAt, w2) = createdAt_or_now relProps w1;
          w3 = create_edges (nodes_with_id w2 newEntityId) (nodes_with_id w2 (n_id to))
                 (carried_props relProps newRelId createdAt now) w2
      in recreate_outgoing rest newEntityId now w3)"

fun recreate_incoming :: "(edge \<times> node) list \<Rightarrow> uuid \<Rightarrow> int \<Rightarrow> world \<Rightarrow> world" where
  "recreate_incoming [] newEntityId now w = w"
| "recreate_incoming ((relProps, from) # rest) newEntityId now w =
     (let (newRelId, w1) = uuidv4 w;
          (createdAt, w2) = createdAt_or_now relProps w1;
          w3 = create_edges (nodes_with_id w2 (n_id from)) (nodes_with_id w2 newEntityId)
                 (carried_props relProps newRelId createdAt now) w2
      in recreate_incoming rest newEntityId now w3)"

fun addObservations_loop ::
  "observationInput list \<Rightarrow> observationResult list \<Rightarrow> world
     \<Rightarrow> observationResult list \<times> world" where
  "addObservations_loop [] results w = (results, w)"
| "addObservations_loop (obs # rest) results w =
     (if o_entityName obs = [] \<or> o_contents obs = [] then addObservations_loop rest results w
      else case current_nodes w (o_entityName obs) of
             [] \<Rightarrow> addObservations_loop rest results w
           | currentNode # others \<Rightarrow>
               (let currentObservations = n_observations currentNode;
                    outgoingRels = outgoing w currentNode;
                    incomingRels = incoming w currentNode;
                    (now, w1) = Date_now w;
                    (newEntityId, w2) = uuidv4 w1;
                    newObservations =
                      filter (\<lambda>content. content \<notin> set currentObservations) (o_contents obs)
                in if newObservations = []
                   then addObservations_loop rest
                          (results @ [\<lparr>res_entityName = o_entityName obs, addedObservations = []\<rparr>])
                          w2
                   else
                     (let allObservations = currentObservations @ newObservations;
                          w3 = invalidate_with_edges (n_id currentNode) now w2;
                          w4 = create_node
                                 (new_version_node currentNode newEntityId allObservations now) w3;
                          w5 = recreate_outgoing outgoingRels newEntityId now w4;
                          w6 = recreate_incoming incomingRels newEntityId now w5
                      in addObservations_loop rest
                           (results @ [\<lparr>res_entityName = o_entityName obs,
                                        addedObservations = newObservations\<rparr>])
                           w6)))"

definition addObservations ::
  "observationInput list \<Rightarrow> world \<Rightarrow> error + observationResult list \<times> world" where
  "addObservations observations w =
     (if observations = [] then Inr ([], w) else Inr (addObservations_loop observations [] w))"

subsection \<open>deleteEntities, deleteObservations, deleteRelations\<close>

text \<open>\<^verbatim>\<open>MATCH (e:Entity) WHERE e.name IN $names DETACH DELETE e\<close>.\<close>

definition deleteEntities :: "string list \<Rightarrow> world \<Rightarrow> error + world" where
  "deleteEntities entityNames w =
     (if entityNames = [] then Inr w
      else
        (let ks = map elem (filter (\<lambda>n. n_name n \<in> set entityNames) (nodes w))
         in Inr (w\<lparr>nodes := filter (\<lambda>n. n_name n \<notin> set entityNames) (nodes w),
                   edges := filter (\<lambda>r. r_start r \<notin> set ks \<and> r_end r \<notin> set ks) (edges w)\<rparr>)))"

record deletionInput =
  del_entityName :: string
  del_observations :: "string list"

fun deleteObservations_loop :: "deletionInput list \<Rightarrow> world \<Rightarrow> world" where
  "deleteObservations_loop [] w = w"
| "deleteObservations_loop (deletion # rest) w =
     (if del_entityName deletion = [] \<or> del_observations deletion = []
      then deleteObservations_loop rest w
      else case current_nodes w (del_entityName deletion) of
             [] \<Rightarrow> deleteObservations_loop rest w
           | currentNode # others \<Rightarrow>
               (let currentObservations = n_observations currentNode;
                    updatedObservations =
                      filter (\<lambda>obs. obs \<notin> set (del_observations deletion)) currentObservations;
                    (now, w1) = Date_now w;
                    (newEntityId, w2) = uuidv4 w1;
                    w3 = invalidate (n_id currentNode) now w2;
                    w4 = create_node
                           (new_version_node currentNode newEntityId updatedObservations now) w3
                in deleteObservations_loop rest w4))"

definition deleteObservations :: "deletionInput list \<Rightarrow> world \<Rightarrow> error + world" where
  "deleteObservations deletions w =
     (if deletions = [] then Inr w else Inr (deleteObservations_loop deletions w))"

text \<open>
  \<^verbatim>\<open>MATCH (from:Entity {name: $fromName})-[r:RELATES_TO]->(to:Entity {name: $toName})\<close>:
  the relationship joins a node of the one name to a node of the other.
\<close>

definition joins :: "world \<Rightarrow> string \<Rightarrow> string \<Rightarrow> edge \<Rightarrow> bool" where
  "joins w fromName toName r =
     (fromName \<in> set (names_of_elem w (r_start r)) \<and> toName \<in> set (names_of_elem w (r_end r)))"

fun deleteRelations_loop :: "relationInput list \<Rightarrow> world \<Rightarrow> world" where
  "deleteRelations_loop [] w = w"
| "deleteRelations_loop (relation # rest) w =
     deleteRelations_loop rest
       (w\<lparr>edges := filter (\<lambda>r. \<not> (joins w (ri_from relation) (ri_to relation) r
                                   \<and> r_relationType r = ri_relationType relation)) (edges w)\<rparr>)"

definition deleteRelations :: "relationInput list \<Rightarrow> world \<Rightarrow> error + world" where
  "deleteRelations rels w = (if rels = [] then Inr w else Inr (deleteRelations_loop rels w))"

subsection \<open>updateRelation\<close>

definition current_relationships :: "world \<Rightarrow> string \<Rightarrow> string \<Rightarrow> string \<Rightarrow> edge list" where
  "current_relationships w fromName toName relationType =
     filter (\<lambda>r. joins w fromName toName r \<and> r_relationType r = relationType
                 \<and> r_validTo r = None) (edges w)"

definition updated_props :: "relationInput \<Rightarrow> edge \<Rightarrow> uuid \<Rightarrow> int \<Rightarrow> edge" where
  "updated_props relation currentRel newRelationId now =
     \<lparr>r_start = 0, r_end = 0, r_id = newRelationId, r_relationType = ri_relationType relation,
      r_strength = (case ri_strength relation of None \<Rightarrow> r_strength currentRel | Some s \<Rightarrow> Some s),
      r_confidence =
        (case ri_confidence relation of None \<Rightarrow> r_confidence currentRel | Some c \<Rightarrow> Some c),
      r_metadata = (case ri_metadata relation of None \<Rightarrow> r_metadata currentRel | Some m \<Rightarrow> Some m),
      r_version = num_or (Some (r_version currentRel)) 0 + 1,
      r_createdAt = r_createdAt currentRel, r_updatedAt = now, r_validFrom = now,
      r_validTo = None, r_changedBy = str_or_null (ri_changedBy relation)\<rparr>"

definition updateRelation :: "relationInput \<Rightarrow> world \<Rightarrow> error + world" where
  "updateRelation relation w =
     (case current_relationships w (ri_from relation) (ri_to relation) (ri_relationType relation) of
        [] \<Rightarrow>
          Inl (Error (''Relation not found: '' @ ri_from relation @ '' -> '' @ ri_to relation
                      @ '' ('' @ ri_relationType relation @ '')''))
      | currentRel # others \<Rightarrow>
          (let (now, w1) = Date_now w;
               (newRelationId, w2) = uuidv4 w1;
               w3 = w2\<lparr>edges :=
                        map (\<lambda>r. if joins w2 (ri_from relation) (ri_to relation) r
                                     \<and> r_id r = r_id currentRel
                                  then r\<lparr>r_validTo := Some now\<rparr> else r) (edges w2)\<rparr>;
               w4 = create_edges (nodes_named w3 (ri_from relation)) (nodes_named w3 (ri_to relation))
                      (updated_props relation currentRel newRelationId now) w3
           in Inr w4))"

subsection \<open>Reading the graph\<close>

text \<open>
  A read operation takes the instant \<open>now\<close> that \<^verbatim>\<open>Date.now()\<close> returns while it runs;
  it does not change the store.

  \<^verbatim>\<open>MATCH (from:Entity)-[r:RELATES_TO]->(to:Entity) WHERE ... RETURN from.name, to.name, r\<close>:
  one row for each relationship that passes the filter, with the names of its two ends.
\<close>

definition relationship_rows :: "world \<Rightarrow> (edge \<Rightarrow> bool) \<Rightarrow> (string \<times> string \<times> edge) list" where
  "relationship_rows w P =
     concat (map (\<lambda>r. map (\<lambda>(fromName, toName). (fromName, toName, r))
                        (List.product (names_of_elem w (r_start r)) (names_of_elem w (r_end r))))
               (filter P (edges w)))"

definition to_relations :: "int \<Rightarrow> (string \<times> string \<times> edge) list \<Rightarrow> relation list" where
  "to_relations now rows =
     map (\<lambda>(fromName, toName, rel). relationshipToRelation rel fromName toName now) rows"

definition loadGraph :: "world \<Rightarrow> int \<Rightarrow> knowledgeGraph" where
  "loadGraph w now =
     (let ents = map nodeToEntity (filter (\<lambda>e. n_validTo e = None) (nodes w));
          rels = to_relations now (relationship_rows w (\<lambda>r. r_validTo r = None))
      in \<lparr>entities = ents, relations = rels, total = Some (length ents), diagnostics = None\<rparr>)"

text \<open>The current relationships whose two ends both carry one of the given names.\<close>

definition relations_between :: "world \<Rightarrow> string list \<Rightarrow> int \<Rightarrow> relation list" where
  "relations_between w entityNames now =
     to_relations now
       (filter (\<lambda>(fromName, toName, r). fromName \<in> set entityNames \<and> toName \<in> set entityNames)
          (relationship_rows w (\<lambda>r. r_validTo r = None)))"

definition getEntity :: "string \<Rightarrow> world \<Rightarrow> entity option" where
  "getEntity entityName w =
     (case current_nodes w entityName of [] \<Rightarrow> None | n # others \<Rightarrow> Some (nodeToEntity n))"

definition openNodes :: "string list \<Rightarrow> world \<Rightarrow> int \<Rightarrow> knowledgeGraph" where
  "openNodes names w now =
     (if names = [] then \<lparr>entities = [], relations = [], total = None, diagnostics = None\<rparr>
      else
        (let ents = map nodeToEntity
                      (filter (\<lambda>e. n_name e \<in> set names \<and> n_validTo e = None) (nodes w));
             rels = relations_between w names now
         in \<lparr>entities = ents, relations = rels, total = Some (length ents), diagnostics = None\<rparr>))"

subsection \<open>What the provider consumes from outside\<close>

text \<open>
  The regular-expression operator of the store (\<open>regexMatch text pattern\<close> for
  \<^verbatim>\<open>text =~ pattern\<close>), \<^verbatim>\<open>JSON.stringify\<close> on an array of strings, the vector index
  (\<open>queryNodes k v\<close> for \<^verbatim>\<open>db.index.vector.queryNodes('entity_embeddings', k, v)\<close>, which
  may fail), the state of the vector store and the \<^verbatim>\<open>DEBUG\<close> variable of the environment.
\<close>

record externals =
  regexMatch :: "string \<Rightarrow> string \<Rightarrow> bool"
  JSON_stringify :: "string list \<Rightarrow> string"
  queryNodes :: "int \<Rightarrow> real list \<Rightarrow> error + (node \<times> real) list"
  vectorStore_initialized :: bool
  vectorStore_initialize :: "error + unit"
  DEBUG :: bool

record searchOptions =
  limit :: "real option"
  entityTypes :: "string list option"
  minSimilarity :: "real option"
  queryVector :: "real list option"

subsection \<open>searchNodes\<close>

definition node_matches :: "externals \<Rightarrow> string \<Rightarrow> searchOptions \<Rightarrow> node \<Rightarrow> bool" where
  "node_matches ext query options e =
     (let pattern = ''(?i).*'' @ query @ ''.*''
      in (regexMatch ext (n_name e) pattern \<or> regexMatch ext (n_entityType e) pattern
            \<or> regexMatch ext (JSON_stringify ext (n_observations e)) pattern)
         \<and> (case entityTypes options of
               None \<Rightarrow> True
             | Some types \<Rightarrow> types = [] \<or> n_entityType e \<in> set types)
         \<and> n_validTo e = None)"

text \<open>
  \<^verbatim>\<open>LIMIT $limit\<close> takes the first rows; the store rejects a negative limit, and the
  function rethrows what the store raises.
\<close>

definition searchNodes ::
  "externals \<Rightarrow> string \<Rightarrow> searchOptions \<Rightarrow> world \<Rightarrow> int \<Rightarrow> error + knowledgeGraph" where
  "searchNodes ext query options w now =
     (let rawLimit = num_or (limit options) 10;
          k = \<lfloor>rawLimit\<rfloor>
      in if k < 0 then Inl (Error ''LIMIT: negative value'')
         else
           (let ents = map nodeToEntity
                         (take (nat k) (filter (node_matches ext query options) (nodes w)));
                entityNames = map e_name ents
            in if entityNames \<noteq> []
               then Inr \<lparr>entities = ents, relations = relations_between w entityNames now,
                         total = Some (length ents), diagnostics = None\<rparr>
               else Inr \<lparr>entities = ents, relations = [], total = Some (length ents),
                         diagnostics = None\<rparr>))"

subsection \<open>getGraphAtTime\<close>

definition valid_at :: "int \<Rightarrow> int \<Rightarrow> int option \<Rightarrow> bool" where
  "valid_at timestamp validFrom validTo =
     (validFrom \<le> timestamp \<and> (case validTo of None \<Rightarrow> True | Some t \<Rightarrow> t > timestamp))"

definition getGraphAtTime :: "int \<Rightarrow> world \<Rightarrow> int \<Rightarrow> knowledgeGraph" where
  "getGraphAtTime timestamp w now =
     (let ents = map nodeToEntity
                   (filter (\<lambda>e. valid_at timestamp (n_validFrom e) (n_validTo e)) (nodes w));
          rels = to_relations now
                   (relationship_rows w (\<lambda>r. valid_at timestamp (r_validFrom r) (r_validTo r)))
      in \<lparr>entities = ents, relations = rels, total = Some (length ents), diagnostics = None\<rparr>)"

subsection \<open>getDecayedGraph\<close>

record decayConfig =
  enabled :: bool
  halfLifeDays :: real
  minConfidence :: real

text \<open>
  \<^verbatim>\<open>relation as ExtendedRelation\<close> is a cast and changes no value: the object that
  \<^verbatim>\<open>relationshipToRelation\<close> has built holds \<^verbatim>\<open>from\<close>, \<^verbatim>\<open>to\<close>, \<^verbatim>\<open>relationType\<close>,
  \<^verbatim>\<open>strength\<close>, \<^verbatim>\<open>confidence\<close> and \<^verbatim>\<open>metadata\<close>, so its \<^verbatim>\<open>validFrom\<close> and its
  \<^verbatim>\<open>createdAt\<close> read as \<^verbatim>\<open>undefined\<close>.
\<close>

definition extended_validFrom :: "relation \<Rightarrow> int option" where
  "extended_validFrom relation = None"

definition extended_createdAt :: "relation \<Rightarrow> int option" where
  "extended_createdAt relation = None"

definition apply_decay :: "decayConfig \<Rightarrow> real \<Rightarrow> int \<Rightarrow> relation \<Rightarrow> relation" where
  "apply_decay cfg decayFactor startTime relation =
     (case rel_confidence relation of
        None \<Rightarrow> relation
      | Some confidence \<Rightarrow>
          (let ageDiff = startTime
                 - num_or (extended_validFrom relation)
                     (num_or (extended_createdAt relation) startTime);
               decayedConfidence = confidence * exp (decayFactor * real_of_int ageDiff);
               decayedConfidence' =
                 (if decayedConfidence < minConfidence cfg then minConfidence cfg
                  else decayedConfidence)
           in relation\<lparr>rel_confidence := Some decayedConfidence'\<rparr>))"

definition getDecayedGraph :: "decayConfig \<Rightarrow> world \<Rightarrow> int \<Rightarrow> knowledgeGraph" where
  "getDecayedGraph cfg w startTime =
     (if \<not> enabled cfg then loadGraph w startTime
      else
        (let ents = map nodeToEntity (filter (\<lambda>e. n_validTo e = None) (nodes w));
             halfLifeMs = halfLifeDays cfg * 24 * 60 * 60 * 1000;
             decayFactor = ln (1 / 2) / halfLifeMs;
             rels = map (apply_decay cfg decayFactor startTime)
                      (to_relations startTime (relationship_rows w (\<lambda>r. r_validTo r = None)))
         in \<lparr>entities = ents, relations = rels, total = Some (length ents),
             diagnostics = Some (Decay_info (enabled cfg) (halfLifeDays cfg) (minConfidence cfg)
                                   decayFactor)\<rparr>))"

subsection \<open>findSimilarEntities and semanticSearch\<close>

text \<open>\<^verbatim>\<open>xs.slice(0, k)\<close>: \<open>k\<close> is truncated to an integer, a negative one counts from the end.\<close>

definition js_slice0 :: "'a list \<Rightarrow> real \<Rightarrow> 'a list" where
  "js_slice0 xs k =
     (if k \<ge> 0 then take (nat \<lfloor>k\<rfloor>) xs else take (length xs - nat (- \<lceil>k\<rceil>)) xs)"

text \<open>\<^verbatim>\<open>ORDER BY score DESC\<close>; rows of equal score keep the order in which they were yielded.\<close>

definition order_by_score_desc :: "('a \<times> real) list \<Rightarrow> ('a \<times> real) list" where
  "order_by_score_desc rows = sort_key (\<lambda>(x, score). - score) rows"

definition findSimilarEntities ::
  "externals \<Rightarrow> real list \<Rightarrow> real \<Rightarrow> world \<Rightarrow> (entity \<times> real) list" where
  "findSimilarEntities ext vec lmt w =
     (case queryNodes ext \<lfloor>lmt\<rfloor> vec of
        Inl err \<Rightarrow> []
      | Inr yielded \<Rightarrow>
          (let records = order_by_score_desc yielded
           in if records \<noteq> []
              then
                (let ents = List.map_filter
                              (\<lambda>(n, score). case getEntity (n_name n) w of
                                                None \<Rightarrow> None
                                              | Some entity \<Rightarrow> Some (entity, score)) records
                 in js_slice0 (filter (\<lambda>(entity, score). e_validTo entity = Some Null) ents) lmt)
              else []))"

definition empty_graph :: knowledgeGraph where
  "empty_graph = \<lparr>entities = [], relations = [], total = None, diagnostics = None\<rparr>"

text \<open>The diagnostics are part of the result only when \<^verbatim>\<open>DEBUG\<close> is \<^verbatim>\<open>'true'\<close>.\<close>

definition with_diagnostics :: "externals \<Rightarrow> string list \<Rightarrow> knowledgeGraph \<Rightarrow> knowledgeGraph" where
  "with_diagnostics ext steps g = (if DEBUG ext then g\<lparr>diagnostics := Some (Steps steps)\<rparr> else g)"

definition init_steps :: "externals \<Rightarrow> string list" where
  "init_steps ext =
     (if \<not> vectorStore_initialized ext
      then ''vectorStoreInitialization:started''
             # (case vectorStore_initialize ext of
                  Inr u \<Rightarrow> [''vectorStoreInitialization:success'']
                | Inl initError \<Rightarrow> [''vectorStoreInitialization:error''])
      else [])"

definition type_allowed :: "searchOptions \<Rightarrow> string \<Rightarrow> bool" where
  "type_allowed options entityType =
     (case entityTypes options of None \<Rightarrow> True | Some types \<Rightarrow> types = [] \<or> entityType \<in> set types)"

text \<open>
  The branch taken when \<^verbatim>\<open>options.queryVector\<close> is set on entry: the direct lookup, and
  after a failure of it the lookup through \<^verbatim>\<open>findSimilarEntities\<close>.
\<close>

definition vector_search ::
  "externals \<Rightarrow> real list \<Rightarrow> searchOptions \<Rightarrow> world \<Rightarrow> int \<Rightarrow> string list \<Rightarrow> knowledgeGraph" where
  "vector_search ext vec options w now steps =
     (let steps1 = steps @ [''searchMethod:vectorOnly'', ''vectorSearch:started''];
          searchLimit = \<lfloor>num_or (limit options) 10\<rfloor>;
          minScore = num_or (minSimilarity options) (6 / 10)
      in case queryNodes ext searchLimit vec of
           Inr yielded \<Rightarrow>
             (let records =
                    order_by_score_desc (filter (\<lambda>(n, score). score \<ge> minScore) yielded);
                  steps2 = steps1 @ [''vectorSearch:completed'']
              in if records \<noteq> []
                 then
                   (let ents = List.map_filter (\<lambda>(n, score). getEntity (n_name n) w) records
                    in if ents = [] then with_diagnostics ext steps2 empty_graph
                       else with_diagnostics ext steps2 (openNodes (map e_name ents) w now))
                 else with_diagnostics ext steps2 empty_graph)
         | Inl err \<Rightarrow>
             (let steps2 = steps1 @ [''vectorSearch:error''];
                  results = findSimilarEntities ext vec (of_int (searchLimit * 2)) w;
                  filteredResults =
                    js_slice0
                      (filter (\<lambda>(entity, score). type_allowed options (e_entityType entity))
                         (filter (\<lambda>(entity, score). score \<ge> minScore) results))
                      (of_int searchLimit);
                  steps3 = steps2 @ [''filterResults:completed'']
              in if filteredResults = []
                 then with_diagnostics ext (steps3 @ [''finalResult:empty'']) empty_graph
                 else with_diagnostics ext (steps3 @ [''openNodes:started'', ''openNodes:completed''])
                        (openNodes (map (\<lambda>(entity, score). e_name entity) filteredResults) w now)))"

text \<open>The text search at the end of \<^verbatim>\<open>semanticSearch\<close>.\<close>

definition text_search ::
  "externals \<Rightarrow> string \<Rightarrow> searchOptions \<Rightarrow> world \<Rightarrow> int \<Rightarrow> string list
     \<Rightarrow> error + knowledgeGraph" where
  "text_search ext query options w now steps =
     (let steps1 = steps @ [''searchMethod:textOnly'', ''textSearch:started''];
          textSearchLimit = \<lfloor>num_or (limit options) 10\<rfloor>
      in case searchNodes ext query (options\<lparr>limit := Some (of_int textSearchLimit)\<rparr>) w now of
           Inl err \<Rightarrow> Inl err
         | Inr textResults \<Rightarrow>
             Inr (with_diagnostics ext (steps1 @ [''textSearch:completed'']) textResults))"

definition semanticSearch ::
  "externals \<Rightarrow> embeddingService option \<Rightarrow> string \<Rightarrow> searchOptions \<Rightarrow> world \<Rightarrow> int
     \<Rightarrow> error + knowledgeGraph" where
  "semanticSearch ext svc query options w now =
     (let steps0 = [''start''] @ init_steps ext
            @ [if svc = None then ''embeddingServiceCheck:unavailable''
               else ''embeddingServiceCheck:available'']
      in if queryVector options = None \<and> svc \<noteq> None
         then
           (let steps1 = steps0 @ [''generateQueryEmbedding:started'']
            in case the svc query of
                 Inr v \<Rightarrow>
                   text_search ext query (options\<lparr>queryVector := Some v\<rparr>) w now
                     (steps1 @ [''generateQueryEmbedding:success''])
               | Inl embedError \<Rightarrow>
                   text_search ext query options w now
                     (steps1 @ [''generateQueryEmbedding:error'']))
         else if queryVector options \<noteq> None
         then Inr (vector_search ext (the (queryVector options)) options w now steps0)
         else text_search ext query options w now steps0)"

subsection \<open>saveGraph\<close>

text \<open>\<^verbatim>\<open>x || Date.now()\<close>: the clock is read only when \<open>x\<close> is falsy.\<close>

definition or_now :: "int option \<Rightarrow> world \<Rightarrow> int \<times> world" where
  "or_now x w =
     (case x of None \<Rightarrow> Date_now w | Some v \<Rightarrow> if v = 0 then Date_now w else (v, w))"

fun saveGraph_entities :: "entity list \<Rightarrow> world \<Rightarrow> world" where
  "saveGraph_entities [] w = w"
| "saveGraph_entities (entity # rest) w =
     (let (ident, w1) = (case e_id entity of None \<Rightarrow> uuidv4 w | Some i \<Rightarrow> (i, w));
          (createdAt, w2) = or_now (e_createdAt entity) w1;
          (updatedAt, w3) = or_now (e_updatedAt entity) w2;
          (validFrom, w4) = or_now (e_validFrom entity) w3;
          n = \<lparr>elem = 0, n_id = ident, n_name = e_name entity,
               n_entityType = e_entityType entity, n_observations = e_observations entity,
               n_version = num_or (e_version entity) 1, n_createdAt = createdAt,
               n_updatedAt = updatedAt, n_validFrom = validFrom,
               n_validTo = num_or_null (strip_null (e_validTo entity)),
               n_changedBy = str_or_null (strip_null (e_changedBy entity)),
               n_embedding = None\<rparr>
      in saveGraph_entities rest (create_node n w4))"

text \<open>
  The relations of the graph are read through \<^verbatim>\<open>ExtendedRelation\<close>; for a relation built
  by \<^verbatim>\<open>relationshipToRelation\<close> the properties \<^verbatim>\<open>id\<close>, \<^verbatim>\<open>version\<close>, \<^verbatim>\<open>createdAt\<close>,
  \<^verbatim>\<open>updatedAt\<close>, \<^verbatim>\<open>validFrom\<close>, \<^verbatim>\<open>validTo\<close> and \<^verbatim>\<open>changedBy\<close> are undefined.
\<close>

fun saveGraph_relations :: "relation list \<Rightarrow> world \<Rightarrow> world" where
  "saveGraph_relations [] w = w"
| "saveGraph_relations (relation # rest) w =
     (let (ident, w1) = uuidv4 w;
          (createdAt, w2) = Date_now w1;
          (updatedAt, w3) = Date_now w2;
          (validFrom, w4) = Date_now w3;
          props = \<lparr>r_start = 0, r_end = 0, r_id = ident,
                   r_relationType = rel_relationType relation,
                   r_strength = num_or_null (rel_strength relation),
                   r_confidence = num_or_null (rel_confidence relation),
                   r_metadata = Some (rel_metadata relation), r_version = 1,
                   r_createdAt = createdAt, r_updatedAt = updatedAt, r_validFrom = validFrom,
                   r_validTo = None, r_changedBy = None\<rparr>
      in saveGraph_relations rest
           (create_edges (nodes_named w4 (rel_from relation)) (nodes_named w4 (rel_to relation))
              props w4))"

text \<open>\<^verbatim>\<open>MATCH (n) DETACH DELETE n\<close>, then the entities and the relations of the graph.\<close>

definition saveGraph :: "knowledgeGraph \<Rightarrow> world \<Rightarrow> error + world" where
  "saveGraph graph w =
     Inr (saveGraph_relations (relations graph)
            (saveGraph_entities (entities graph) (w\<lparr>nodes := [], edges := []\<rparr>)))"

subsection \<open>Sequences of write operations\<close>

datatype operation =
    CreateEntities "embeddingService option" "entity list"
  | CreateRelations "relationInput list"
  | AddObservations "observationInput list"
  | DeleteObservations "deletionInput list"
  | UpdateRelation relationInput
  | DeleteEntities "string list"
  | DeleteRelations "relationInput list"

text \<open>The store after a call; a call that throws is rolled back and leaves it as it was.\<close>

fun apply_operation :: "operation \<Rightarrow> world \<Rightarrow> world" where
  "apply_operation (CreateEntities svc ents) w =
     (case createEntities svc ents w of Inl err \<Rightarrow> w | Inr (created, w') \<Rightarrow> w')"
| "apply_operation (CreateRelations rels) w =
     (case createRelations rels w of Inl err \<Rightarrow> w | Inr (created, w') \<Rightarrow> w')"
| "apply_operation (AddObservations observations) w =
     (case addObservations observations w of Inl err \<Rightarrow> w | Inr (results, w') \<Rightarrow> w')"
| "apply_operation (DeleteObservations deletions) w =
     (case deleteObservations deletions w of Inl err \<Rightarrow> w | Inr w' \<Rightarrow> w')"
| "apply_operation (UpdateRelation relation) w =
     (case updateRelation relation w of Inl err \<Rightarrow> w | Inr w' \<Rightarrow> w')"
| "apply_operation (DeleteEntities entityNames) w =
     (case deleteEntities entityNames w of Inl err \<Rightarrow> w | Inr w' \<Rightarrow> w')"
| "apply_operation (DeleteRelations rels) w =
     (case deleteRelations rels w of Inl err \<Rightarrow> w | Inr w' \<Rightarrow> w')"

fun run :: "operation list \<Rightarrow> world \<Rightarrow> world" where
  "run [] w = w"
| "run (opn # ops) w = run ops (apply_operation opn w)"

text \<open>The names of the current entity rows, and the invariant: no name occurs twice.\<close>

definition current_names :: "world \<Rightarrow> string list" where
  "current_names w = map n_name (filter (\<lambda>n. n_validTo n = None) (nodes w))"

definition current_unique :: "world \<Rightarrow> bool" where
  "current_unique w = distinct (current_names w)"

text \<open>
  Every \<^verbatim>\<open>createEntities\<close> call of the sequence creates names that differ from each other
  and have no current row when the call is made.
\<close>

definition creates_new_names :: "operation \<Rightarrow> world \<Rightarrow> bool" where
  "creates_new_names opn w =
     (case opn of
        CreateEntities svc ents \<Rightarrow>
          distinct (map e_name ents) \<and> list_all (\<lambda>e. e_name e \<notin> set (current_names w)) ents
      | _ \<Rightarrow> True)"

fun creates_fresh :: "operation list \<Rightarrow> world \<Rightarrow> bool" where
  "creates_fresh [] w = True"
| "creates_fresh (opn # ops) w =
     (creates_new_names opn w \<and> creates_fresh ops (apply_operation opn w))"

subsection \<open>A small store\<close>

text \<open>
  The store reached from the empty one by creating the entities \<^verbatim>\<open>alice\<close> and \<^verbatim>\<open>bob\<close>,
  the relation \<^verbatim>\<open>alice knows bob\<close>, and then adding an observation to \<^verbatim>\<open>alice\<close>; the
  clock advances by 10 at every reading.
\<close>

definition empty_world :: world where
  "empty_world =
     \<lparr>nodes = [], edges = [], elems = 0, clock = (\<lambda>k. 1000 + 10 * int k), ticks = 0,
      uuids = (\<lambda>k. 100 + k), draws = 0\<rparr>"

definition alice :: entity where
  "alice =
     \<lparr>e_name = ''alice'', e_entityType = ''person'', e_observations = [''likes tea''],
      e_id = None, e_version = None, e_createdAt = None, e_updatedAt = None,
      e_validFrom = None, e_validTo = None, e_changedBy = None\<rparr>"

definition bob :: entity where
  "bob = alice\<lparr>e_name := ''bob'', e_observations := []\<rparr>"

definition knows :: relationInput where
  "knows =
     \<lparr>ri_from = ''alice'', ri_to = ''bob'', ri_relationType = ''knows'', ri_strength = None,
      ri_confidence = Some (8 / 10), ri_metadata = None, ri_createdAt = None,
      ri_updatedAt = None, ri_validFrom = None, ri_changedBy = None\<rparr>"

definition alice_v1 :: node where
  "alice_v1 =
     \<lparr>elem = 0, n_id = 100, n_name = ''alice'', n_entityType = ''person'',
      n_observations = [''likes tea''], n_version = 1, n_createdAt = 1000, n_updatedAt = 1000,
      n_validFrom = 1000, n_validTo = Some 1040, n_changedBy = None, n_embedding = None\<rparr>"

definition bob_v1 :: node where
  "bob_v1 =
     \<lparr>elem = 1, n_id = 101, n_name = ''bob'', n_entityType = ''person'', n_observations = [],
      n_version = 1, n_createdAt = 1010, n_updatedAt = 1010, n_validFrom = 1010,
      n_validTo = None, n_changedBy = None, n_embedding = None\<rparr>"

definition alice_v2 :: node where
  "alice_v2 =
     \<lparr>elem = 2, n_id = 103, n_name = ''alice'', n_entityType = ''person'',
      n_observations = [''likes tea'', ''plays chess''], n_version = 2, n_createdAt = 1000,
      n_updatedAt = 1040, n_validFrom = 1040, n_validTo = None, n_changedBy = None,
      n_embedding = None\<rparr>"

definition knows_v1 :: edge where
  "knows_v1 =
     \<lparr>r_start = 0, r_end = 1, r_id = 102, r_relationType = ''knows'', r_strength = None,
      r_confidence = Some (8 / 10), r_metadata = None, r_version = 1, r_createdAt = 1020,
      r_updatedAt = 1020, r_validFrom = 1020, r_validTo = Some 1040, r_changedBy = None\<rparr>"

definition knows_v2 :: edge where
  "knows_v2 =
     \<lparr>r_start = 2, r_end = 1, r_id = 104, r_relationType = ''knows'', r_strength = Some (9 / 10),
      r_confidence = Some (8 / 10), r_metadata = None, r_version = 1, r_createdAt = 1020,
      r_updatedAt = 1040, r_validFrom = 1040, r_validTo = None, r_changedBy = None\<rparr>"

definition small_world :: world where
  "small_world =
     empty_world\<lparr>nodes := [alice_v1, bob_v1, alice_v2], edges := [knows_v1, knows_v2],
                  elems := 3, ticks := 5, draws := 5\<rparr>"

definition carol_then_alice :: "observationInput list" where
  "carol_then_alice =
     [\<lparr>o_entityName = ''carol'', o_contents = [''is new'']\<rparr>,
      \<lparr>o_entityName = ''alice'', o_contents = [''likes tea'']\<rparr>]"

subsection \<open>A store with embeddings, and a stand-in for what is consumed from outside\<close>

definition tea :: node where
  "tea =
     \<lparr>elem = 0, n_id = 100, n_name = ''tea'', n_entityType = ''drink'',
      n_observations = [''a hot drink''], n_version = 1, n_createdAt = 1000, n_updatedAt = 1000,
      n_validFrom = 1000, n_validTo = None, n_changedBy = None, n_embedding = Some [1, 0]\<rparr>"

definition chess :: node where
  "chess =
     \<lparr>elem = 1, n_id = 101, n_name = ''chess'', n_entityType = ''game'',
      n_observations = [''a board game''], n_version = 1, n_createdAt = 1010, n_updatedAt = 1010,
      n_validFrom = 1010, n_validTo = None, n_changedBy = None, n_embedding = Some [0, 1]\<rparr>"

definition indexed_world :: world where
  "indexed_world = empty_world\<lparr>nodes := [tea, chess], elems := 2, ticks := 2, draws := 2\<rparr>"

text \<open>An embedding service that maps every text that mentions a drink to one axis.\<close>

primrec has_infix :: "string \<Rightarrow> string \<Rightarrow> bool" where
  "has_infix q [] = (q = [])"
| "has_infix q (c # cs) = (take (length q) (c # cs) = q \<or> has_infix q cs)"

definition axis_service :: embeddingService where
  "axis_service text = (if has_infix ''drink'' text then Inr [1, 0] else Inr [0, 1])"

text \<open>
  The pattern \<^verbatim>\<open>(?i).*q.*\<close> is matched as containment of \<open>q\<close> (enough for lower-case
  text without metacharacters); the index answers a query on the second axis with
  \<^verbatim>\<open>chess\<close> first, any other query with \<^verbatim>\<open>tea\<close> at 0.61 and \<^verbatim>\<open>chess\<close> at 0.59.
\<close>

definition example_ext :: externals where
  "example_ext =
     \<lparr>regexMatch = (\<lambda>text pattern. has_infix (drop 6 (take (length pattern - 2) pattern)) text),
      JSON_stringify = (\<lambda>xs. ''['' @ join '','' (map (\<lambda>x. [CHR 0x22] @ x @ [CHR 0x22]) xs) @ '']''),
      queryNodes = (\<lambda>k v. if v = [0, 1] then Inr [(chess, 9 / 10), (tea, 1 / 10)]
                            else Inr [(chess, 59 / 100), (tea, 61 / 100)]),
      vectorStore_initialized = True,
      vectorStore_initialize = Inr (),
      DEBUG = True\<rparr>"

definition no_options :: searchOptions where
  "no_options = \<lparr>limit = None, entityTypes = None, minSimilarity = None, queryVector = None\<rparr>"

subsection \<open>The decay model in the words of the specification\<close>

text \<open>
  Effective confidence of a relation with base confidence \<open>c0\<close> and age \<open>dt\<close> milliseconds,
  for a half-life of \<open>H\<close> days and a floor \<open>C_min\<close>.
\<close>

definition spec_decayed_confidence :: "real \<Rightarrow> real \<Rightarrow> real \<Rightarrow> real \<Rightarrow> real" where
  "spec_decayed_confidence H C_min c0 dt = max C_min (c0 * exp (ln (1 / 2) / (H * 86400000) * dt))"

definition thirty_days :: decayConfig where
  "thirty_days = \<lparr>enabled = True, halfLifeDays = 30, minConfidence = 1 / 10\<rparr>"

subsection \<open>The result set of a search\<close>

text \<open>The entities and relations of a search result, or the error raised instead.\<close>

definition result_set :: "error + knowledgeGraph \<Rightarrow> error + entity list \<times> relation list" where
  "result_set res = (case res of Inl err \<Rightarrow> Inl err | Inr g \<Rightarrow> Inr (entities g, relations g))"

subsection \<open>A sequence of operations on the empty store\<close>

definition example_operations :: "operation list" where
  "example_operations =
     [CreateEntities None [alice, bob],
      CreateRelations [knows],
      AddObservations [\<lparr>o_entityName = ''alice'', o_contents = [''plays chess'']\<rparr>],
      UpdateRelation (knows\<lparr>ri_confidence := Some (1 / 2)\<rparr>),
      DeleteObservations [\<lparr>del_entityName = ''alice'', del_observations = [''likes tea'']\<rparr>],
      DeleteRelations [knows],
      DeleteEntities [''bob'']]"

subsection \<open>A restored snapshot\<close>

text \<open>
  The store after \<^verbatim>\<open>saveGraph(getGraphAtTime(1030))\<close> on the small store: the snapshot
  holds the first version of \<^verbatim>\<open>alice\<close>, closed at 1040, and \<^verbatim>\<open>bob\<close>.
\<close>

definition restored_world :: world where
  "restored_world =
     empty_world
       \<lparr>nodes := [alice_v1\<lparr>elem := 3\<rparr>, bob_v1\<lparr>elem := 4\<rparr>],
        edges := [\<lparr>r_start = 3, r_end = 4, r_id = 105, r_relationType = ''knows'',
                   r_strength = None, r_confidence = Some (8 / 10),
                   r_metadata = Some [(''createdAt'', J_number 1020),
                                      (''updatedAt'', J_number 1020)],
                   r_version = 1, r_createdAt = 1050, r_updatedAt = 1060, r_validFrom = 1070,
                   r_validTo = None, r_changedBy = None\<rparr>],
        elems := 5, ticks := 8, draws := 6\<rparr>"

definition likes :: relationInput where
  "likes = knows\<lparr>ri_relationType := ''likes''\<rparr>"

definition likes_edge :: edge where
  "likes_edge =
     \<lparr>r_start = 3, r_end = 4, r_id = 106, r_relationType = ''likes'', r_strength = None,
      r_confidence = Some (8 / 10), r_metadata = None, r_version = 1, r_createdAt = 1080,
      r_updatedAt = 1080, r_validFrom = 1080, r_validTo = None, r_changedBy = None\<rparr>"

subsection \<open>Calling addObservations twice\<close>

text \<open>The id, the version and the \<^verbatim>\<open>validTo\<close> of every entity row, in store order.\<close>

definition versions :: "world \<Rightarrow> (uuid \<times> nat \<times> int option) list" where
  "versions w = map (\<lambda>n. (n_id n, n_version n, n_validTo n)) (nodes w)"

text \<open>
  Two \<^verbatim>\<open>addObservations\<close> calls with the same argument, one after the other: the results
  of both, and the entity rows after each.
\<close>

definition addObservations_twice ::
  "observationInput list \<Rightarrow> world
     \<Rightarrow> error + observationResult list \<times> observationResult list
               \<times> (uuid \<times> nat \<times> int option) list \<times> (uuid \<times> nat \<times> int option) list" where
  "addObservations_twice observations w =
     (case addObservations observations w of
        Inl err \<Rightarrow> Inl err
      | Inr (first, w1) \<Rightarrow>
          (case addObservations observations w1 of
             Inl err \<Rightarrow> Inl err
           | Inr (second, w2) \<Rightarrow> Inr (first, second, versions w1, versions w2)))"

section \<open>Properties\<close>

subsection \<open>The small store is reached by the operations\<close>

lemmas example_defs =
  empty_world_def alice_def bob_def knows_def alice_v1_def bob_v1_def alice_v2_def
  knows_v1_def knows_v2_def small_world_def

lemmas write_defs =
  createEntities_def createRelations_def addObservations_def Date_now_def uuidv4_def
  create_node_def create_edges_def new_entity_node_def embed_entity_def nodeToEntity_def
  new_relation_props_def relationshipToRelation_def nodes_named_def nodes_with_id_def
  current_nodes_def outgoing_def incoming_def invalidate_with_edges_def new_version_node_def
  carried_props_def createdAt_or_now_def num_or_def num_or_null_def str_or_null_def
  strip_null_def

lemma small_world_reached:
  "\<exists>r1 w1 r2 w2 r3.
     createEntities None [alice, bob] empty_world = Inr (r1, w1)
     \<and> createRelations [knows] w1 = Inr (r2, w2)
     \<and> addObservations [\<lparr>o_entityName = ''alice'', o_contents = [''plays chess'', ''likes tea'']\<rparr>] w2
         = Inr (r3, small_world)"
  by (simp add: example_defs write_defs Let_def)

subsection \<open>Rows returned by the relationship queries\<close>

lemma relationship_rows_set:
  "(f, t, r) \<in> set (relationship_rows w P) \<longleftrightarrow>
     r \<in> set (edges w) \<and> P r \<and> f \<in> set (names_of_elem w (r_start r))
       \<and> t \<in> set (names_of_elem w (r_end r))"
  by (auto simp: relationship_rows_def)

lemma valid_at_iff:
  "valid_at t vf vt \<longleftrightarrow> vf \<le> t \<and> (vt = None \<or> (\<exists>v. vt = Some v \<and> t < v))"
  by (auto simp: valid_at_def split: option.splits)

subsection \<open>The graph at an instant\<close>

text \<open>
  C9. \<^verbatim>\<open>getGraphAtTime(t)\<close> returns an entity exactly when it is the image of a stored
  node with \<open>validFrom \<le> t\<close> whose \<open>validTo\<close> is absent or later than \<open>t\<close>, and a relation
  exactly when it is the image of a stored relationship with the same property.
\<close>

theorem getGraphAtTime_row_included_iff:
  "(e \<in> set (entities (getGraphAtTime t w now)) \<longleftrightarrow>
      (\<exists>n \<in> set (nodes w). e = nodeToEntity n \<and> n_validFrom n \<le> t
          \<and> (n_validTo n = None \<or> (\<exists>v. n_validTo n = Some v \<and> t < v))))
   \<and> (rel \<in> set (relations (getGraphAtTime t w now)) \<longleftrightarrow>
      (\<exists>r \<in> set (edges w). r_validFrom r \<le> t
          \<and> (r_validTo r = None \<or> (\<exists>v. r_validTo r = Some v \<and> t < v))
          \<and> (\<exists>f \<in> set (names_of_elem w (r_start r)). \<exists>t' \<in> set (names_of_elem w (r_end r)).
                rel = relationshipToRelation r f t' now)))"
proof
  show "e \<in> set (entities (getGraphAtTime t w now)) \<longleftrightarrow>
      (\<exists>n \<in> set (nodes w). e = nodeToEntity n \<and> n_validFrom n \<le> t
          \<and> (n_validTo n = None \<or> (\<exists>v. n_validTo n = Some v \<and> t < v)))"
    by (auto simp: getGraphAtTime_def Let_def valid_at_iff)
next
  have "rel \<in> set (relations (getGraphAtTime t w now)) \<longleftrightarrow>
        (\<exists>f t' r. (f, t', r)
             \<in> set (relationship_rows w (\<lambda>r. valid_at t (r_validFrom r) (r_validTo r)))
           \<and> rel = relationshipToRelation r f t' now)"
    by (force simp: getGraphAtTime_def Let_def to_relations_def)
  then show "rel \<in> set (relations (getGraphAtTime t w now)) \<longleftrightarrow>
      (\<exists>r \<in> set (edges w). r_validFrom r \<le> t
          \<and> (r_validTo r = None \<or> (\<exists>v. r_validTo r = Some v \<and> t < v))
          \<and> (\<exists>f \<in> set (names_of_elem w (r_start r)). \<exists>t' \<in> set (names_of_elem w (r_end r)).
                rel = relationshipToRelation r f t' now))"
    unfolding relationship_rows_set valid_at_iff by blast
qed

text \<open>
  In the small store at instant 1030 the first version of \<^verbatim>\<open>alice\<close> and the first version
  of the relation are part of the graph, the second versions (valid from 1040) are not.
\<close>

theorem getGraphAtTime_row_included_iff_witness:
  "nodeToEntity alice_v1 \<in> set (entities (getGraphAtTime 1030 small_world 0))
   \<and> nodeToEntity alice_v2 \<notin> set (entities (getGraphAtTime 1030 small_world 0))
   \<and> relationshipToRelation knows_v1 ''alice'' ''bob'' 0
        \<in> set (relations (getGraphAtTime 1030 small_world 0))
   \<and> relationshipToRelation knows_v2 ''alice'' ''bob'' 0
        \<notin> set (relations (getGraphAtTime 1030 small_world 0))"
  using getGraphAtTime_row_included_iff
          [of "nodeToEntity alice_v1" 1030 small_world 0
              "relationshipToRelation knows_v1 ''alice'' ''bob'' 0"]
        getGraphAtTime_row_included_iff
          [of "nodeToEntity alice_v2" 1030 small_world 0
              "relationshipToRelation knows_v2 ''alice'' ''bob'' 0"]
  by (simp add: example_defs nodeToEntity_def relationshipToRelation_def names_of_elem_def
        num_or_def)

subsection \<open>Items that refer to nothing stored\<close>

text \<open>
  C3, as stated, fails: \<^verbatim>\<open>updateRelation\<close> on a relation that has no current row throws
  \<^verbatim>\<open>Relation not found\<close> to its caller. In the small store there is no relation from
  \<^verbatim>\<open>alice\<close> to \<^verbatim>\<open>carol\<close>.
\<close>

theorem updateRelation_unknown_throws_counterexample:
  "current_relationships small_world ''alice'' ''carol'' ''knows'' = []
   \<and> updateRelation (knows\<lparr>ri_to := ''carol''\<rparr>) small_world
       = Inl (Error ''Relation not found: alice -> carol (knows)'')"
  by (simp add: updateRelation_def current_relationships_def joins_def names_of_elem_def
        example_defs)

text \<open>
  C3, amended. \<^verbatim>\<open>updateRelation\<close> returns an error exactly when no current relationship
  matches (from, to, relationType); \<^verbatim>\<open>addObservations\<close> skips an item whose entity name has
  no current node: the loop goes on with the rest of the batch, results and store untouched,
  so the call returns what it returns without that item.
\<close>

theorem notFound_update_throws_add_skips:
  "((\<exists>err. updateRelation relation w = Inl err) \<longleftrightarrow>
      current_relationships w (ri_from relation) (ri_to relation) (ri_relationType relation) = [])
   \<and> (current_nodes w (o_entityName obs) = [] \<longrightarrow>
        addObservations_loop (obs # rest) results w = addObservations_loop rest results w
        \<and> addObservations (obs # rest) w = addObservations rest w)"
proof (intro conjI impI)
  show "(\<exists>err. updateRelation relation w = Inl err) \<longleftrightarrow>
      current_relationships w (ri_from relation) (ri_to relation) (ri_relationType relation) = []"
    by (simp add: updateRelation_def Let_def split: list.splits prod.splits)
next
  assume unknown: "current_nodes w (o_entityName obs) = []"
  then show loop: "addObservations_loop (obs # rest) results w = addObservations_loop rest results w"
    by simp
  from unknown have "addObservations_loop (obs # rest) [] w = addObservations_loop rest [] w"
    by simp
  then show "addObservations (obs # rest) w = addObservations rest w"
    by (cases rest) (simp_all add: addObservations_def)
qed

theorem notFound_update_throws_add_skips_witness:
  "(\<exists>err. updateRelation (knows\<lparr>ri_to := ''carol''\<rparr>) small_world = Inl err)
   \<and> current_nodes small_world ''carol'' = []
   \<and> addObservations carol_then_alice small_world
       = Inr ([\<lparr>res_entityName = ''alice'', addedObservations = []\<rparr>],
              small_world\<lparr>ticks := 6, draws := 6\<rparr>)"
proof -
  have unknown: "current_nodes small_world (o_entityName (hd carol_then_alice)) = []"
    by (simp add: carol_then_alice_def current_nodes_def example_defs)
  have norel: "current_relationships small_world ''alice'' ''carol'' ''knows'' = []"
    by (simp add: current_relationships_def joins_def names_of_elem_def example_defs)
  have rest: "addObservations (tl carol_then_alice) small_world
       = Inr ([\<lparr>res_entityName = ''alice'', addedObservations = []\<rparr>],
              small_world\<lparr>ticks := 6, draws := 6\<rparr>)"
    by (simp add: carol_then_alice_def example_defs write_defs Let_def)
  show ?thesis
    using notFound_update_throws_add_skips
            [of "knows\<lparr>ri_to := ''carol''\<rparr>" small_world "hd carol_then_alice"
                "tl carol_then_alice" "[]"]
          unknown norel rest
    by (simp add: carol_then_alice_def knows_def)
qed

subsection \<open>Evaluating searches on the store with embeddings\<close>

lemmas indexed_defs = tea_def chess_def indexed_world_def empty_world_def example_ext_def
  no_options_def axis_service_def

lemmas read_defs =
  semanticSearch_def text_search_def vector_search_def searchNodes_def openNodes_def
  getEntity_def current_nodes_def node_matches_def relations_between_def to_relations_def
  relationship_rows_def names_of_elem_def nodeToEntity_def relationshipToRelation_def
  with_diagnostics_def init_steps_def empty_graph_def order_by_score_desc_def
  findSimilarEntities_def js_slice0_def type_allowed_def num_or_def List.map_filter_def

lemma indexed_world_reached:
  "\<exists>r. createEntities (Some axis_service)
          [alice\<lparr>e_name := ''tea'', e_entityType := ''drink'', e_observations := [''a hot drink'']\<rparr>,
           alice\<lparr>e_name := ''chess'', e_entityType := ''game'',
                  e_observations := [''a board game'']\<rparr>]
          empty_world = Inr (r, indexed_world)"
  by (simp add: indexed_defs alice_def write_defs Let_def)

subsection \<open>Strategy selection in semanticSearch\<close>

text \<open>
  When no query vector is supplied and the embedding service returns a vector, the branch
  that embeds the query is the first arm of the conditional whose second arm is the vector
  lookup, so control reaches the text search: the result is the one of the text search on
  the options (now holding the vector), and the vector index has no part in it.
\<close>

lemma semanticSearch_after_embedding:
  assumes "queryVector options = None" and "svc query = Inr v"
  shows "semanticSearch ext (Some svc) query options w now
         = text_search ext query (options\<lparr>queryVector := Some v\<rparr>) w now
             ([''start''] @ init_steps ext
              @ [''embeddingServiceCheck:available'', ''generateQueryEmbedding:started'',
                 ''generateQueryEmbedding:success''])"
  using assms by (simp add: semanticSearch_def)

lemma node_matches_ignores_index:
  "node_matches (ext\<lparr>queryNodes := q\<rparr>) query options = node_matches ext query options"
  by (simp add: node_matches_def fun_eq_iff)

lemma searchNodes_ignores_index:
  "searchNodes (ext\<lparr>queryNodes := q\<rparr>) query options w now = searchNodes ext query options w now"
  by (simp add: searchNodes_def node_matches_ignores_index Let_def)

lemma text_search_ignores_index:
  "text_search (ext\<lparr>queryNodes := q\<rparr>) query options w now steps
   = text_search ext query options w now steps"
  by (simp add: text_search_def searchNodes_ignores_index with_diagnostics_def Let_def
        split: sum.splits)

lemma semanticSearch_embedding_failure_not_thrown:
  assumes "queryVector options = None" and "svc query = Inl embedError"
  shows "semanticSearch ext (Some svc) query options w now
         = text_search ext query options w now
             ([''start''] @ init_steps ext
              @ [''embeddingServiceCheck:available'', ''generateQueryEmbedding:started'',
                 ''generateQueryEmbedding:error''])"
  using assms by (simp add: semanticSearch_def)

text \<open>
  C1, at a failing input. The store holds \<^verbatim>\<open>tea\<close> and \<^verbatim>\<open>chess\<close> with embeddings, the
  service embeds the query \<^verbatim>\<open>strategy\<close> as [0, 1], and the index answers that vector with
  \<^verbatim>\<open>chess\<close> at 0.9. \<^verbatim>\<open>semanticSearch\<close> without a query vector embeds the query, then
  runs the text search, which matches nothing; the lookup on the embedded vector would
  have returned \<^verbatim>\<open>chess\<close>.
\<close>

theorem semanticSearch_embeds_then_runs_text_search:
  "axis_service ''strategy'' = Inr [0, 1]
   \<and> semanticSearch example_ext (Some axis_service) ''strategy'' no_options indexed_world 0
       = Inr \<lparr>entities = [], relations = [], total = Some 0,
              diagnostics = Some (Steps
                [''start'', ''embeddingServiceCheck:available'',
                 ''generateQueryEmbedding:started'', ''generateQueryEmbedding:success'',
                 ''searchMethod:textOnly'', ''textSearch:started'', ''textSearch:completed''])\<rparr>
   \<and> entities (vector_search example_ext [0, 1] no_options indexed_world 0 [])
       = [nodeToEntity chess]"
  by (simp add: indexed_defs read_defs Let_def)

subsection \<open>The vector lookup of semanticSearch\<close>

text \<open>
  C7, at a failing input. With a query vector and the allow-list \<^verbatim>\<open>['game']\<close>, the index
  yields \<^verbatim>\<open>chess\<close> (a game) at 0.59 and \<^verbatim>\<open>tea\<close> (a drink) at 0.61. The floor 0.6 removes
  \<^verbatim>\<open>chess\<close> and keeps \<^verbatim>\<open>tea\<close>; the direct lookup never reads \<^verbatim>\<open>entityTypes\<close>, so the
  result is \<^verbatim>\<open>tea\<close>, whose type is not in the allow-list. Moreover the rows ordered by
  score only select names: with a floor of 0.05 and \<^verbatim>\<open>chess\<close> at 0.9 before \<^verbatim>\<open>tea\<close> at
  0.1, the graph that \<^verbatim>\<open>openNodes\<close> returns for these names lists \<^verbatim>\<open>tea\<close> first.
\<close>

theorem vector_search_ignores_entityTypes:
  "map (\<lambda>e. (e_name e, e_entityType e))
     (entities (vector_search example_ext [1, 0] (no_options\<lparr>entityTypes := Some [''game'']\<rparr>)
                  indexed_world 0 []))
   = [(''tea'', ''drink'')]
   \<and> result_set (semanticSearch example_ext None ''anything''
                   (no_options\<lparr>entityTypes := Some [''game''], queryVector := Some [1, 0]\<rparr>)
                   indexed_world 0)
       = Inr ([nodeToEntity tea], [])
   \<and> queryNodes example_ext 10 [0, 1] = Inr [(chess, 9 / 10), (tea, 1 / 10)]
   \<and> map e_name
         (entities (vector_search example_ext [0, 1] (no_options\<lparr>minSimilarity := Some (1 / 20)\<rparr>)
                      indexed_world 0 []))
       = [''tea'', ''chess'']"
  by (simp add: indexed_defs read_defs result_set_def Let_def)

subsection \<open>The similarity floor of the direct lookup\<close>

lemma getEntity_name: "getEntity nm w = Some e \<Longrightarrow> e_name e = nm"
  by (auto simp: getEntity_def nodeToEntity_def current_nodes_def split: list.splits
        dest!: filter_eq_ConsD)

text \<open>
  When the index answers, every entity that the lookup returns carries the name of a
  yielded candidate whose score is at least the floor, \<^verbatim>\<open>minSimilarity\<close> or 0.6 when that
  is absent or 0, and is a current row; when no candidate reaches the floor the result is
  the empty graph.
\<close>

lemma vector_search_floor:
  assumes "queryNodes ext \<lfloor>num_or (limit options) 10\<rfloor> vec = Inr yielded"
    and "e \<in> set (entities (vector_search ext vec options w now steps))"
  shows "\<exists>(n, score) \<in> set yielded.
           score \<ge> num_or (minSimilarity options) (6 / 10) \<and> e_name e = n_name n
           \<and> e_validTo e = None"
proof -
  let ?floor = "num_or (minSimilarity options) (6 / 10)"
  let ?records = "order_by_score_desc (filter (\<lambda>(n, score). score \<ge> ?floor) yielded)"
  let ?ents = "List.map_filter (\<lambda>(n, score). getEntity (n_name n) w) ?records"
  have ents: "e \<in> set (entities (openNodes (map e_name ?ents) w now))"
    using assms
    by (auto simp: vector_search_def Let_def with_diagnostics_def empty_graph_def
          split: if_splits)
  then have "e_name e \<in> set (map e_name ?ents)" and cur: "e_validTo e = None"
    by (auto simp: openNodes_def Let_def nodeToEntity_def split: if_splits)
  then obtain e' where e': "e' \<in> set ?ents" "e_name e' = e_name e" by auto
  then obtain n score where cand: "(n, score) \<in> set ?records" "getEntity (n_name n) w = Some e'"
    by (auto simp: List.map_filter_def)
  then have "(n, score) \<in> set yielded" "score \<ge> ?floor"
    by (auto simp: order_by_score_desc_def)
  moreover have "e_name e = n_name n"
    using getEntity_name [OF cand(2)] e'(2) by simp
  ultimately show ?thesis using cur by blast
qed

lemma vector_search_no_match:
  assumes "queryNodes ext \<lfloor>num_or (limit options) 10\<rfloor> vec = Inr yielded"
    and "\<forall>(n, score) \<in> set yielded. score < num_or (minSimilarity options) (6 / 10)"
  shows "entities (vector_search ext vec options w now steps) = []
         \<and> relations (vector_search ext vec options w now steps) = []"
proof -
  have "filter (\<lambda>(n, score). score \<ge> num_or (minSimilarity options) (6 / 10)) yielded = []"
    using assms(2) by (auto simp: filter_empty_conv)
  then show ?thesis
    using assms(1)
    by (simp add: vector_search_def Let_def with_diagnostics_def empty_graph_def
          order_by_score_desc_def)
qed

subsection \<open>Confidence decay\<close>

text \<open>
  Whatever the age of the relationship, the confidence that \<^verbatim>\<open>getDecayedGraph\<close> reports
  is the stored one raised to the floor: the age is computed from two properties that the
  converted relation does not have, and is therefore 0.
\<close>

lemma apply_decay_ageless:
  "rel_confidence (apply_decay cfg decayFactor startTime relation)
   = map_option (max (minConfidence cfg)) (rel_confidence relation)"
  by (cases "rel_confidence relation")
     (auto simp: apply_decay_def extended_validFrom_def extended_createdAt_def num_or_def
        Let_def max_def)

lemma apply_decay_other_fields:
  "rel_from (apply_decay cfg k t relation) = rel_from relation
   \<and> rel_to (apply_decay cfg k t relation) = rel_to relation
   \<and> rel_relationType (apply_decay cfg k t relation) = rel_relationType relation
   \<and> rel_strength (apply_decay cfg k t relation) = rel_strength relation
   \<and> rel_metadata (apply_decay cfg k t relation) = rel_metadata relation"
  by (simp add: apply_decay_def Let_def split: option.splits)

lemma getDecayedGraph_disabled:
  "\<not> enabled cfg \<Longrightarrow> getDecayedGraph cfg w startTime = loadGraph w startTime"
  by (simp add: getDecayedGraph_def)

text \<open>
  C5, at a failing input. The relation of the small store has confidence 0.8 and is valid
  from 1040; thirty days later, with a half-life of thirty days and a floor of 0.1, the
  model of the specification gives 0.4 and \<^verbatim>\<open>getDecayedGraph\<close> returns 0.8.
\<close>

theorem getDecayedGraph_does_not_age:
  "map rel_confidence (relations (getDecayedGraph thirty_days small_world (1040 + 2592000000)))
   = [Some (8 / 10)]
   \<and> spec_decayed_confidence 30 (1 / 10) (8 / 10) 2592000000 = 4 / 10"
proof
  show "map rel_confidence
          (relations (getDecayedGraph thirty_days small_world (1040 + 2592000000)))
        = [Some (8 / 10)]"
    by (simp add: getDecayedGraph_def thirty_days_def Let_def to_relations_def
          relationship_rows_def names_of_elem_def example_defs apply_decay_ageless
          relationshipToRelation_def)
next
  have "ln (1 / 2) / (30 * 86400000) * 2592000000 = ln (1 / 2 :: real)"
    by simp
  then have "exp (ln (1 / 2) / (30 * 86400000) * 2592000000) = (1 / 2 :: real)"
    by simp
  then show "spec_decayed_confidence 30 (1 / 10) (8 / 10) 2592000000 = 4 / 10"
    by (simp add: spec_decayed_confidence_def)
qed

subsection \<open>Semantic search without an embedding service\<close>

lemma searchNodes_cong:
  assumes "\<lfloor>num_or (limit o1) 10\<rfloor> = \<lfloor>num_or (limit o2) 10\<rfloor>"
    and "entityTypes o1 = entityTypes o2"
  shows "searchNodes ext query o1 w now = searchNodes ext query o2 w now"
proof -
  define core :: "int \<Rightarrow> (node \<Rightarrow> bool) \<Rightarrow> error + knowledgeGraph" where
    "core k P =
       (if k < 0 then Inl (Error ''LIMIT: negative value'')
        else
          (let ents = map nodeToEntity (take (nat k) (filter P (nodes w)));
               entityNames = map e_name ents
           in if entityNames \<noteq> []
              then Inr \<lparr>entities = ents, relations = relations_between w entityNames now,
                        total = Some (length ents), diagnostics = None\<rparr>
              else Inr \<lparr>entities = ents, relations = [], total = Some (length ents),
                        diagnostics = None\<rparr>))" for k P
  have unfold: "searchNodes ext query opts w now
                = core \<lfloor>num_or (limit opts) 10\<rfloor> (node_matches ext query opts)" for opts
    unfolding searchNodes_def core_def Let_def by (rule refl)
  have "node_matches ext query o1 = node_matches ext query o2"
    using assms(2) by (simp add: node_matches_def fun_eq_iff)
  with assms(1) show ?thesis by (simp only: unfold)
qed

lemma floor_limit_twice:
  assumes "\<forall>l. lmt = Some l \<longrightarrow> l \<le> 0 \<or> 1 \<le> l"
  shows "\<lfloor>num_or (Some (of_int \<lfloor>num_or lmt 10\<rfloor> :: real)) 10\<rfloor> = \<lfloor>num_or lmt (10 :: real)\<rfloor>"
proof (cases lmt)
  case None
  then show ?thesis by (simp add: num_or_def)
next
  case (Some l)
  with assms have range: "l \<le> 0 \<or> 1 \<le> l" by simp
  show ?thesis
  proof (cases "l = 0")
    case True
    with Some show ?thesis by (simp add: num_or_def)
  next
    case False
    with range have "\<lfloor>l\<rfloor> \<noteq> 0" by (auto simp: floor_eq_iff)
    with Some False show ?thesis by (simp add: num_or_def)
  qed
qed

text \<open>
  C8, at a failing input. With no embedding service, no query vector and the limit 0.5 on
  the store with embeddings, \<^verbatim>\<open>searchNodes\<close> floors the limit to \<^verbatim>\<open>LIMIT 0\<close> and returns
  nothing; \<^verbatim>\<open>semanticSearch\<close> floors it to 0 and hands that to \<^verbatim>\<open>searchNodes\<close>, whose
  \<^verbatim>\<open>limit || 10\<close> takes the 0 for a missing limit and uses 10, and returns \<^verbatim>\<open>tea\<close>.
\<close>

theorem semanticSearch_fractional_limit_differs:
  "result_set (searchNodes example_ext ''tea'' (no_options\<lparr>limit := Some (1 / 2)\<rparr>) indexed_world 0)
     = Inr ([], [])
   \<and> result_set (semanticSearch example_ext None ''tea'' (no_options\<lparr>limit := Some (1 / 2)\<rparr>)
                   indexed_world 0)
     = Inr ([nodeToEntity tea], [])"
  by (simp add: indexed_defs read_defs result_set_def Let_def)

text \<open>
  For every other limit (absent, at most 0, or at least 1) the two searches agree: without
  an embedding service and without a query vector, \<^verbatim>\<open>semanticSearch\<close> returns the entities
  and relations of \<^verbatim>\<open>searchNodes\<close> on the same query and options, or raises the same error.
\<close>

lemma semanticSearch_agrees_outside_unit_interval:
  assumes "queryVector options = None"
    and "\<forall>l. limit options = Some l \<longrightarrow> l \<le> 0 \<or> 1 \<le> l"
  shows "result_set (semanticSearch ext None query options w now)
           = result_set (searchNodes ext query options w now)
         \<and> (\<not> DEBUG ext \<longrightarrow>
              semanticSearch ext None query options w now = searchNodes ext query options w now)"
proof -
  let ?floored = "options\<lparr>limit := Some (of_int \<lfloor>num_or (limit options) 10\<rfloor>)\<rparr>"
  have same: "searchNodes ext query ?floored w now = searchNodes ext query options w now"
    by (rule searchNodes_cong) (simp_all add: floor_limit_twice [OF assms(2)])
  have sem: "semanticSearch ext None query options w now
             = text_search ext query options w now
                 ([''start''] @ init_steps ext @ [''embeddingServiceCheck:unavailable''])"
    using assms(1) by (simp add: semanticSearch_def)
  show ?thesis
    unfolding sem text_search_def Let_def same
    by (cases "searchNodes ext query options w now")
       (simp_all add: result_set_def with_diagnostics_def)
qed

subsection \<open>What the write operations do to the entity rows\<close>

lemma Date_now_store:
  "Date_now w = (t, w') \<Longrightarrow> nodes w' = nodes w \<and> edges w' = edges w \<and> elems w' = elems w"
  by (auto simp: Date_now_def)

lemma uuidv4_store:
  "uuidv4 w = (u, w') \<Longrightarrow> nodes w' = nodes w \<and> edges w' = edges w \<and> elems w' = elems w"
  by (auto simp: uuidv4_def)

lemma createdAt_or_now_store:
  "createdAt_or_now relProps w = (t, w') \<Longrightarrow>
     nodes w' = nodes w \<and> edges w' = edges w \<and> elems w' = elems w"
  by (auto simp: createdAt_or_now_def Date_now_def split: if_splits)

lemma nodes_create_edges [simp]: "nodes (create_edges froms tos props w) = nodes w"
  by (simp add: create_edges_def)

lemma nodes_recreate_outgoing [simp]:
  "nodes (recreate_outgoing rels newEntityId now w) = nodes w"
proof (induction rels arbitrary: w)
  case Nil
  then show ?case by simp
next
  case (Cons a rels)
  obtain relProps to where a: "a = (relProps, to)" by (cases a)
  show ?case
    unfolding a
    by (auto simp: Let_def Cons.IH split: prod.splits
          dest!: uuidv4_store createdAt_or_now_store)
qed

lemma nodes_recreate_incoming [simp]:
  "nodes (recreate_incoming rels newEntityId now w) = nodes w"
proof (induction rels arbitrary: w)
  case Nil
  then show ?case by simp
next
  case (Cons a rels)
  obtain relProps fromNode where a: "a = (relProps, fromNode)" by (cases a)
  show ?case
    unfolding a
    by (auto simp: Let_def Cons.IH split: prod.splits
          dest!: uuidv4_store createdAt_or_now_store)
qed

lemma current_names_cong: "nodes w' = nodes w \<Longrightarrow> current_names w' = current_names w"
  by (simp add: current_names_def)

lemma current_unique_cong: "nodes w' = nodes w \<Longrightarrow> current_unique w \<Longrightarrow> current_unique w'"
  by (simp add: current_unique_def current_names_def)

lemma current_names_create_node:
  "current_names (create_node n w)
   = current_names w @ (if n_validTo n = None then [n_name n] else [])"
  by (simp add: current_names_def create_node_def)

lemma current_nodes_names:
  "c \<in> set (current_nodes w nm) \<longleftrightarrow> c \<in> set (nodes w) \<and> n_name c = nm \<and> n_validTo c = None"
  by (auto simp: current_nodes_def)

text \<open>Closing the rows that carry one \<open>id\<close> removes them from the current rows.\<close>

lemma filter_current_closed:
  "filter (\<lambda>n. n_validTo n = None)
     (map (\<lambda>n. if n_id n = i then n\<lparr>n_validTo := Some now\<rparr> else n) ns)
   = filter (\<lambda>n. n_id n \<noteq> i \<and> n_validTo n = None) ns"
  by (induction ns) auto

lemma current_names_invalidate:
  "current_names (invalidate i now w)
   = map n_name (filter (\<lambda>n. n_id n \<noteq> i \<and> n_validTo n = None) (nodes w))"
  by (simp add: current_names_def invalidate_def filter_current_closed)

lemma current_names_invalidate_with_edges:
  "current_names (invalidate_with_edges i now w)
   = map n_name (filter (\<lambda>n. n_id n \<noteq> i \<and> n_validTo n = None) (nodes w))"
  by (simp add: current_names_def invalidate_with_edges_def Let_def filter_current_closed)

text \<open>
  Superseding a current row: once the rows with its \<open>id\<close> are closed, no current row has
  its name, so a new current row of that name keeps the names distinct.
\<close>

lemma supersede_keeps_distinct:
  assumes uniq: "distinct (map n_name (filter (\<lambda>n. n_validTo n = None) ns))"
    and c: "c \<in> set ns" "n_validTo c = None"
  shows "distinct (map n_name (filter (\<lambda>n. n_id n \<noteq> n_id c \<and> n_validTo n = None) ns)
                   @ [n_name c])"
proof -
  let ?cur = "filter (\<lambda>n. n_validTo n = None) ns"
  let ?rest = "filter (\<lambda>n. n_id n \<noteq> n_id c \<and> n_validTo n = None) ns"
  have rest: "?rest = filter (\<lambda>n. n_id n \<noteq> n_id c) ?cur"
    by (simp add: conj_commute)
  have "distinct (map n_name ?rest)"
    unfolding rest using uniq by (rule distinct_map_filter)
  moreover have "n_name c \<notin> set (map n_name ?rest)"
  proof
    assume "n_name c \<in> set (map n_name ?rest)"
    then obtain n where n: "n \<in> set ns" "n_id n \<noteq> n_id c" "n_validTo n = None"
        "n_name n = n_name c"
      by auto
    have inj: "inj_on n_name (set ?cur)"
      using uniq by (simp add: distinct_map)
    have "n \<in> set ?cur" and "c \<in> set ?cur" using n c by simp_all
    with inj n(4) have "n = c" by (auto dest: inj_onD)
    with n(2) show False by simp
  qed
  ultimately show ?thesis by simp
qed

lemma createEntities_loop_names:
  "current_names (snd (createEntities_loop svc ents acc w)) = current_names w @ map e_name ents"
proof (induction ents arbitrary: acc w)
  case Nil
  then show ?case by simp
next
  case (Cons entity rest)
  obtain now w1 where now: "Date_now w = (now, w1)" by (cases "Date_now w")
  obtain entityId w2 where uid: "uuidv4 w1 = (entityId, w2)" by (cases "uuidv4 w1")
  have w2: "current_names w2 = current_names w"
    using Date_now_store [OF now] uuidv4_store [OF uid] by (simp add: current_names_def)
  show ?case
    by (simp add: now uid Let_def Cons.IH current_names_create_node new_entity_node_def w2)
qed

lemma createRelations_loop_nodes:
  "nodes (snd (createRelations_loop rels acc w)) = nodes w"
proof (induction rels arbitrary: acc w)
  case Nil
  then show ?case by simp
next
  case (Cons relation rest)
  show ?case
    by (auto simp: Let_def Cons.IH split: prod.splits list.splits
          dest!: uuidv4_store Date_now_store)
qed

lemma addObservations_loop_unique:
  "current_unique w \<Longrightarrow> current_unique (snd (addObservations_loop obs results w))"
proof (induction obs arbitrary: results w)
  case Nil
  then show ?case by simp
next
  case (Cons ob rest)
  show ?case
  proof (cases "o_entityName ob = [] \<or> o_contents ob = []")
    case True
    then show ?thesis using Cons by auto
  next
    case False
    show ?thesis
    proof (cases "current_nodes w (o_entityName ob)")
      case Nil
      then show ?thesis using False Cons by simp
    next
      case (Cons currentNode others)
      obtain now w1 where now: "Date_now w = (now, w1)" by (cases "Date_now w")
      obtain newEntityId w2 where uid: "uuidv4 w1 = (newEntityId, w2)" by (cases "uuidv4 w1")
      have w2: "nodes w2 = nodes w"
        using Date_now_store [OF now] uuidv4_store [OF uid] by simp
      have uniq2: "current_unique w2"
        using w2 Cons.prems by (rule current_unique_cong)
      have "currentNode \<in> set (current_nodes w (o_entityName ob))"
        using Cons by simp
      then have c: "currentNode \<in> set (nodes w2)" "n_validTo currentNode = None"
        using w2 by (simp_all add: current_nodes_names)
      have created: "current_unique
                    (create_node (new_version_node currentNode newEntityId allObs now)
                       (invalidate_with_edges (n_id currentNode) now w2))" for allObs
        using supersede_keeps_distinct [OF _ c] uniq2
        by (simp add: current_unique_def current_names_create_node new_version_node_def
              current_names_invalidate_with_edges) (simp add: current_names_def)
      have step: "current_unique
                    (recreate_incoming inc newEntityId now
                       (recreate_outgoing out newEntityId now
                          (create_node (new_version_node currentNode newEntityId allObs now)
                             (invalidate_with_edges (n_id currentNode) now w2))))"
        for allObs inc out
        by (rule current_unique_cong [OF _ created]) simp
      show ?thesis
        using False Cons
        by (simp add: now uid Let_def Cons.IH [OF uniq2] Cons.IH [OF step])
    qed
  qed
qed

lemma deleteObservations_loop_unique:
  "current_unique w \<Longrightarrow> current_unique (deleteObservations_loop dels w)"
proof (induction dels arbitrary: w)
  case Nil
  then show ?case by simp
next
  case (Cons deletion rest)
  show ?case
  proof (cases "del_entityName deletion = [] \<or> del_observations deletion = []")
    case True
    then show ?thesis using Cons by auto
  next
    case False
    show ?thesis
    proof (cases "current_nodes w (del_entityName deletion)")
      case Nil
      then show ?thesis using False Cons by simp
    next
      case (Cons currentNode others)
      obtain now w1 where now: "Date_now w = (now, w1)" by (cases "Date_now w")
      obtain newEntityId w2 where uid: "uuidv4 w1 = (newEntityId, w2)" by (cases "uuidv4 w1")
      have w2: "nodes w2 = nodes w"
        using Date_now_store [OF now] uuidv4_store [OF uid] by simp
      have uniq2: "current_unique w2"
        using w2 Cons.prems by (rule current_unique_cong)
      have "currentNode \<in> set (current_nodes w (del_entityName deletion))"
        using Cons by simp
      then have c: "currentNode \<in> set (nodes w2)" "n_validTo currentNode = None"
        using w2 by (simp_all add: current_nodes_names)
      have step: "current_unique
                    (create_node (new_version_node currentNode newEntityId obs now)
                       (invalidate (n_id currentNode) now w2))" for obs
        using supersede_keeps_distinct [OF _ c] uniq2
        by (simp add: current_unique_def current_names_create_node new_version_node_def
              current_names_invalidate) (simp add: current_names_def)
      show ?thesis
        using False Cons
        by (simp add: now uid Let_def Cons.IH [OF step])
    qed
  qed
qed

lemma deleteEntities_unique:
  "current_unique w \<Longrightarrow> deleteEntities entityNames w = Inr w' \<Longrightarrow> current_unique w'"
proof -
  assume uniq: "current_unique w" and del: "deleteEntities entityNames w = Inr w'"
  have "distinct (map n_name (filter (\<lambda>n. n_name n \<notin> set entityNames)
                                 (filter (\<lambda>n. n_validTo n = None) (nodes w))))"
    using uniq unfolding current_unique_def current_names_def by (rule distinct_map_filter)
  then have "distinct (map n_name (filter (\<lambda>n. n_validTo n = None)
                                      (filter (\<lambda>n. n_name n \<notin> set entityNames) (nodes w))))"
    by (simp add: conj_commute)
  with uniq del show ?thesis
    by (auto simp: deleteEntities_def current_unique_def current_names_def Let_def
          split: if_splits)
qed

lemma deleteRelations_loop_nodes: "nodes (deleteRelations_loop rels w) = nodes w"
  by (induction rels arbitrary: w) simp_all

lemma updateRelation_nodes: "updateRelation relation w = Inr w' \<Longrightarrow> nodes w' = nodes w"
  by (auto simp: updateRelation_def Let_def split: list.splits prod.splits
        dest!: uuidv4_store Date_now_store)

lemma apply_CreateEntities:
  "apply_operation (CreateEntities svc ents) w = snd (createEntities_loop svc ents [] w)"
  by (cases ents) (simp_all add: createEntities_def split: prod.splits)

lemma apply_CreateRelations:
  "apply_operation (CreateRelations rels) w = snd (createRelations_loop rels [] w)"
  by (cases rels) (simp_all add: createRelations_def split: prod.splits)

lemma apply_AddObservations:
  "apply_operation (AddObservations obs) w = snd (addObservations_loop obs [] w)"
  by (cases obs) (simp_all add: addObservations_def split: prod.splits)

lemma apply_DeleteObservations:
  "apply_operation (DeleteObservations dels) w = deleteObservations_loop dels w"
  by (cases dels) (simp_all add: deleteObservations_def)

lemma apply_DeleteRelations:
  "apply_operation (DeleteRelations rels) w = deleteRelations_loop rels w"
  by (cases rels) (simp_all add: deleteRelations_def)

lemma apply_operation_unique:
  assumes "current_unique w" and "creates_new_names opn w"
  shows "current_unique (apply_operation opn w)"
proof (cases opn)
  case (CreateEntities svc ents)
  have "distinct (current_names w @ map e_name ents)"
    using assms unfolding CreateEntities
    by (auto simp: creates_new_names_def current_unique_def list_all_iff)
  then show ?thesis
    by (simp add: CreateEntities apply_CreateEntities current_unique_def
          createEntities_loop_names del: apply_operation.simps)
next
  case (CreateRelations rels)
  show ?thesis
    unfolding CreateRelations apply_CreateRelations
    by (rule current_unique_cong [OF createRelations_loop_nodes assms(1)])
next
  case (AddObservations observations)
  show ?thesis
    using assms(1)
    by (simp add: AddObservations apply_AddObservations addObservations_loop_unique
          del: apply_operation.simps)
next
  case (DeleteObservations deletions)
  show ?thesis
    using assms(1)
    by (simp add: DeleteObservations apply_DeleteObservations deleteObservations_loop_unique
          del: apply_operation.simps)
next
  case (UpdateRelation relation)
  show ?thesis
  proof (cases "updateRelation relation w")
    case (Inl err)
    then show ?thesis using assms(1) by (simp add: UpdateRelation)
  next
    case (Inr w')
    then show ?thesis
      using current_unique_cong [OF updateRelation_nodes [OF Inr] assms(1)]
      by (simp add: UpdateRelation)
  qed
next
  case (DeleteEntities entityNames)
  show ?thesis
  proof (cases "deleteEntities entityNames w")
    case (Inl err)
    then show ?thesis using assms(1) by (simp add: DeleteEntities)
  next
    case (Inr w')
    then show ?thesis
      using deleteEntities_unique [OF assms(1) Inr] by (simp add: DeleteEntities)
  qed
next
  case (DeleteRelations rels)
  show ?thesis
    unfolding DeleteRelations apply_DeleteRelations
    by (rule current_unique_cong [OF deleteRelations_loop_nodes assms(1)])
qed

lemma run_unique:
  "current_unique w \<Longrightarrow> creates_fresh ops w \<Longrightarrow> current_unique (run ops w)"
proof (induction ops arbitrary: w)
  case Nil
  then show ?case by simp
next
  case (Cons opn ops)
  from Cons.prems have "current_unique (apply_operation opn w)"
    by (simp add: apply_operation_unique)
  moreover from Cons.prems have "creates_fresh ops (apply_operation opn w)"
    by simp
  ultimately show ?case by (simp add: Cons.IH)
qed

lemma distinct_names_at_most_one:
  "distinct (map f xs) \<Longrightarrow> length (filter (\<lambda>x. f x = a \<and> P x) xs) \<le> 1"
proof (induction xs)
  case Nil
  then show ?case by simp
next
  case (Cons x xs)
  show ?case
  proof (cases "f x = a")
    case True
    from Cons.prems have "f x \<notin> f ` set xs" by simp
    then have "\<forall>y \<in> set xs. f y \<noteq> f x" by (metis imageI)
    with True have "filter (\<lambda>x. f x = a \<and> P x) xs = []"
      by (simp add: filter_empty_conv)
    then show ?thesis by simp
  next
    case False
    with Cons show ?thesis by simp
  qed
qed

lemma current_unique_at_most_one:
  "current_unique w \<Longrightarrow> length (current_nodes w nm) \<le> 1"
proof -
  assume "current_unique w"
  then have "distinct (map n_name (filter (\<lambda>n. n_validTo n = None) (nodes w)))"
    by (simp add: current_unique_def current_names_def)
  then have "length (filter (\<lambda>n. n_name n = nm \<and> True)
                       (filter (\<lambda>n. n_validTo n = None) (nodes w))) \<le> 1"
    by (rule distinct_names_at_most_one)
  then show ?thesis by (simp add: current_nodes_def conj_commute)
qed

subsection \<open>At most one current version\<close>

text \<open>
  C2, as stated, fails: \<^verbatim>\<open>createEntities\<close> inserts a current row without looking for one
  of the same name, so creating \<^verbatim>\<open>alice\<close> twice leaves two rows with \<^verbatim>\<open>validTo = null\<close>.
\<close>

theorem createEntities_twice_counterexample:
  "length (current_nodes
             (run [CreateEntities None [alice], CreateEntities None [alice]] empty_world)
             ''alice'') = 2"
  by (simp add: createEntities_def write_defs example_defs Let_def)

text \<open>
  C2, amended. From a store in which no name has two current rows, any sequence of
  \<^verbatim>\<open>createEntities\<close>, \<^verbatim>\<open>createRelations\<close>, \<^verbatim>\<open>addObservations\<close>, \<^verbatim>\<open>deleteObservations\<close>,
  \<^verbatim>\<open>updateRelation\<close>, \<^verbatim>\<open>deleteEntities\<close> and \<^verbatim>\<open>deleteRelations\<close> calls, in which every
  \<^verbatim>\<open>createEntities\<close> call creates names that differ from each other and have no current
  row at that moment, leads to a store in which every name has at most one current row.
\<close>

theorem current_version_unique_after_operations:
  assumes "current_unique w" and "creates_fresh ops w"
  shows "\<forall>nm. length (current_nodes (run ops w) nm) \<le> 1"
  using run_unique [OF assms] by (blast intro: current_unique_at_most_one)

theorem current_version_unique_after_operations_witness:
  "current_unique empty_world \<and> creates_fresh example_operations empty_world
   \<and> length (current_nodes (run example_operations empty_world) ''alice'') \<le> 1
   \<and> length (current_nodes (run example_operations empty_world) ''alice'') = 1"
proof -
  have start: "current_unique empty_world"
    by (simp add: current_unique_def current_names_def empty_world_def)
  have fresh: "creates_fresh example_operations empty_world"
    by (simp add: example_operations_def creates_new_names_def current_names_def
          deleteObservations_def deleteRelations_def deleteEntities_def updateRelation_def
          current_relationships_def joins_def names_of_elem_def updated_props_def
          invalidate_def write_defs example_defs Let_def)
  have one: "length (current_nodes (run example_operations empty_world) ''alice'') = 1"
    by (simp add: example_operations_def deleteObservations_def deleteRelations_def
          deleteEntities_def updateRelation_def current_relationships_def joins_def
          names_of_elem_def updated_props_def invalidate_def write_defs example_defs Let_def)
  show ?thesis
    using start fresh one current_version_unique_after_operations [OF start fresh]
    by simp
qed

subsection \<open>Adding the same observations again\<close>

lemma current_nodes_cong: "nodes w' = nodes w \<Longrightarrow> current_nodes w' nm = current_nodes w nm"
  by (simp add: current_nodes_def)

lemma addObservations_single_skip:
  assumes "nm = [] \<or> cs = [] \<or> current_nodes w nm = []"
  shows "addObservations [\<lparr>o_entityName = nm, o_contents = cs\<rparr>] w = Inr ([], w)"
  using assms by (auto simp: addObservations_def)

lemma addObservations_single_nothing_new:
  assumes "current_nodes w nm = c # others" and "nm \<noteq> []" and "cs \<noteq> []"
    and "filter (\<lambda>content. content \<notin> set (n_observations c)) cs = []"
  shows "\<exists>w'. addObservations [\<lparr>o_entityName = nm, o_contents = cs\<rparr>] w
               = Inr ([\<lparr>res_entityName = nm, addedObservations = []\<rparr>], w')
             \<and> nodes w' = nodes w \<and> edges w' = edges w"
proof -
  obtain now w1 where now: "Date_now w = (now, w1)" by (cases "Date_now w")
  obtain newEntityId w2 where uid: "uuidv4 w1 = (newEntityId, w2)" by (cases "uuidv4 w1")
  have "nodes w2 = nodes w \<and> edges w2 = edges w"
    using Date_now_store [OF now] uuidv4_store [OF uid] by simp
  moreover have "addObservations [\<lparr>o_entityName = nm, o_contents = cs\<rparr>] w
                 = Inr ([\<lparr>res_entityName = nm, addedObservations = []\<rparr>], w2)"
    using assms by (simp add: addObservations_def now uid Let_def)
  ultimately show ?thesis by blast
qed

lemma current_nodes_after_supersede:
  assumes "current_nodes w nm = [c]" and "n_name new = nm" and "n_validTo new = None"
  shows "current_nodes (create_node new (invalidate_with_edges (n_id c) now w)) nm
         = [new\<lparr>elem := elems w\<rparr>]"
proof -
  have closed: "filter (\<lambda>n. n_name n = nm \<and> n_validTo n = None)
                  (map (\<lambda>n. if n_id n = i then n\<lparr>n_validTo := Some now\<rparr> else n) ns)
                = filter (\<lambda>n. n_id n \<noteq> i) (filter (\<lambda>n. n_name n = nm \<and> n_validTo n = None) ns)"
    for i ns
    by (induction ns) auto
  show ?thesis
    using assms
    by (simp add: current_nodes_def create_node_def invalidate_with_edges_def Let_def closed)
qed

lemma addObservations_single_new:
  assumes "current_nodes w nm = [c]" and "nm \<noteq> []" and "cs \<noteq> []"
    and "filter (\<lambda>content. content \<notin> set (n_observations c)) cs \<noteq> []"
  shows "\<exists>w' c'. addObservations [\<lparr>o_entityName = nm, o_contents = cs\<rparr>] w
               = Inr ([\<lparr>res_entityName = nm,
                        addedObservations =
                          filter (\<lambda>content. content \<notin> set (n_observations c)) cs\<rparr>], w')
             \<and> current_nodes w' nm = [c']
             \<and> n_observations c'
                 = n_observations c @ filter (\<lambda>content. content \<notin> set (n_observations c)) cs"
proof -
  let ?new = "filter (\<lambda>content. content \<notin> set (n_observations c)) cs"
  obtain now w1 where now: "Date_now w = (now, w1)" by (cases "Date_now w")
  obtain newEntityId w2 where uid: "uuidv4 w1 = (newEntityId, w2)" by (cases "uuidv4 w1")
  have w2: "nodes w2 = nodes w"
    using Date_now_store [OF now] uuidv4_store [OF uid] by simp
  let ?node = "new_version_node c newEntityId (n_observations c @ ?new) now"
  let ?w4 = "create_node ?node (invalidate_with_edges (n_id c) now w2)"
  let ?w6 = "recreate_incoming (incoming w c) newEntityId now
               (recreate_outgoing (outgoing w c) newEntityId now ?w4)"
  have cur2: "current_nodes w2 nm = [c]"
    using assms(1) w2 by (simp add: current_nodes_def)
  have "n_name c = nm"
    using assms(1) current_nodes_names [of c w nm] by simp
  then have "current_nodes ?w4 nm = [?node\<lparr>elem := elems w2\<rparr>]"
    by (intro current_nodes_after_supersede [OF cur2]) (simp_all add: new_version_node_def)
  moreover have "nodes ?w6 = nodes ?w4" by simp
  ultimately have cur6: "current_nodes ?w6 nm = [?node\<lparr>elem := elems w2\<rparr>]"
    by (simp add: current_nodes_def)
  have call: "addObservations [\<lparr>o_entityName = nm, o_contents = cs\<rparr>] w
              = Inr ([\<lparr>res_entityName = nm, addedObservations = ?new\<rparr>], ?w6)"
    using assms by (simp add: addObservations_def now uid Let_def)
  have "n_observations (?node\<lparr>elem := elems w2\<rparr>) = n_observations c @ ?new"
    by (simp add: new_version_node_def)
  with call cur6 show ?thesis by blast
qed

text \<open>
  C4, as stated, fails on a store in which a name has two current rows, such as the one
  left by creating \<^verbatim>\<open>alice\<close> twice: the first call supersedes the first of the two rows,
  and the second call, with the same contents, finds the other one, which does not hold
  the observation yet, adds it again and creates a second new version.
\<close>

theorem addObservations_twice_duplicate_rows_counterexample:
  "addObservations_twice [\<lparr>o_entityName = ''alice'', o_contents = [''plays chess'']\<rparr>]
     (run [CreateEntities None [alice], CreateEntities None [alice]] empty_world)
   = Inr ([\<lparr>res_entityName = ''alice'', addedObservations = [''plays chess'']\<rparr>],
          [\<lparr>res_entityName = ''alice'', addedObservations = [''plays chess'']\<rparr>],
          [(100, 1, Some 1020), (101, 1, None), (102, 2, None)],
          [(100, 1, Some 1020), (101, 1, Some 1030), (102, 2, None), (103, 2, None)])"
  by (simp add: addObservations_twice_def versions_def createEntities_def write_defs
        example_defs Let_def)

text \<open>
  C4, amended. For an entity name with at most one current row and any list of contents:
  after a first \<^verbatim>\<open>addObservations\<close> call, a second call with the same contents reports no
  added observation and changes neither the entity rows nor the relationship rows (so the
  current row, with its version and id, stays); when the entity exists and the name and
  the contents are not empty, it returns exactly one result, with
  \<^verbatim>\<open>addedObservations = []\<close>.
\<close>

theorem addObservations_idempotent:
  assumes "length (current_nodes w nm) \<le> 1"
    and "addObservations [\<lparr>o_entityName = nm, o_contents = cs\<rparr>] w = Inr (r1, w1)"
  shows "\<exists>r2 w2. addObservations [\<lparr>o_entityName = nm, o_contents = cs\<rparr>] w1 = Inr (r2, w2)
           \<and> list_all (\<lambda>res. addedObservations res = []) r2
           \<and> nodes w2 = nodes w1 \<and> edges w2 = edges w1
           \<and> map (\<lambda>n. (n_id n, n_version n)) (current_nodes w2 nm)
               = map (\<lambda>n. (n_id n, n_version n)) (current_nodes w1 nm)
           \<and> (if nm \<noteq> [] \<and> cs \<noteq> [] \<and> current_nodes w nm \<noteq> []
               then r2 = [\<lparr>res_entityName = nm, addedObservations = []\<rparr>] else r2 = [])"
proof (cases "nm = [] \<or> cs = [] \<or> current_nodes w nm = []")
  case True
  from addObservations_single_skip [OF True] assms(2) have "w1 = w" by simp
  with addObservations_single_skip [OF True] True show ?thesis by auto
next
  case False
  then obtain c where c: "current_nodes w nm = [c]"
    using assms(1) by (cases "current_nodes w nm") auto
  from False have nm: "nm \<noteq> []" and cs: "cs \<noteq> []" by simp_all
  let ?new = "filter (\<lambda>content. content \<notin> set (n_observations c)) cs"
  show ?thesis
  proof (cases "?new = []")
    case True
    obtain w' where first: "addObservations [\<lparr>o_entityName = nm, o_contents = cs\<rparr>] w
               = Inr ([\<lparr>res_entityName = nm, addedObservations = []\<rparr>], w')"
             and same: "nodes w' = nodes w"
      using addObservations_single_nothing_new [OF c nm cs True] by blast
    from first assms(2) have w1: "w1 = w'" by simp
    have "current_nodes w1 nm = [c]"
      using c same w1 by (simp add: current_nodes_def)
    from addObservations_single_nothing_new [OF this nm cs True] False
    show ?thesis by (auto simp: current_nodes_def)
  next
    case new: False
    obtain w' c' where first: "addObservations [\<lparr>o_entityName = nm, o_contents = cs\<rparr>] w
               = Inr ([\<lparr>res_entityName = nm, addedObservations = ?new\<rparr>], w')"
             and cur: "current_nodes w' nm = [c']"
             and obs: "n_observations c' = n_observations c @ ?new"
      using addObservations_single_new [OF c nm cs new] by blast
    from first assms(2) have w1: "w1 = w'" by simp
    have "filter (\<lambda>content. content \<notin> set (n_observations c')) cs = []"
      by (auto simp: obs filter_empty_conv)
    from addObservations_single_nothing_new [OF _ nm cs this, of w1 "[]"] cur w1 False
    show ?thesis by (auto simp: current_nodes_def)
  qed
qed

theorem addObservations_idempotent_witness:
  "length (current_nodes small_world ''alice'') \<le> 1
   \<and> (\<exists>r1 w1 r2 w2.
         addObservations
           [\<lparr>o_entityName = ''alice'', o_contents = [''plays chess'', ''rides a bike'']\<rparr>]
           small_world = Inr (r1, w1)
         \<and> r1 = [\<lparr>res_entityName = ''alice'', addedObservations = [''rides a bike'']\<rparr>]
         \<and> addObservations
             [\<lparr>o_entityName = ''alice'', o_contents = [''plays chess'', ''rides a bike'']\<rparr>]
             w1 = Inr (r2, w2)
         \<and> r2 = [\<lparr>res_entityName = ''alice'', addedObservations = []\<rparr>]
         \<and> nodes w2 = nodes w1 \<and> edges w2 = edges w1)"
proof -
  let ?obs = "[\<lparr>o_entityName = ''alice'', o_contents = [''plays chess'', ''rides a bike'']\<rparr>]"
  have one: "length (current_nodes small_world ''alice'') \<le> 1"
    by (simp add: current_nodes_def example_defs)
  have found: "current_nodes small_world ''alice'' \<noteq> []"
    by (simp add: current_nodes_def example_defs)
  obtain r1 w1 where first: "addObservations ?obs small_world = Inr (r1, w1)"
    by (cases "addObservations ?obs small_world") (auto simp: addObservations_def)
  have r1: "r1 = [\<lparr>res_entityName = ''alice'', addedObservations = [''rides a bike'']\<rparr>]"
    using first by (simp add: example_defs write_defs Let_def split: prod.splits)
  show ?thesis
    using one found first r1 addObservations_idempotent [OF one first]
    by auto
qed

subsection \<open>Endpoints of created relations\<close>

lemma restored_world_reached:
  "saveGraph (getGraphAtTime 1030 small_world 0) small_world = Inr restored_world"
  by (simp add: saveGraph_def getGraphAtTime_def valid_at_def to_relations_def
        relationship_rows_def names_of_elem_def relationshipToRelation_def nodeToEntity_def
        or_now_def Date_now_def uuidv4_def create_node_def create_edges_def nodes_named_def
        num_or_def num_or_null_def str_or_null_def strip_null_def restored_world_def
        example_defs Let_def)

text \<open>
  C6, at a failing input. The check matches the endpoints by name, without the condition
  \<^verbatim>\<open>validTo IS NULL\<close> that the other lookups of a current entity have. In the restored
  snapshot \<^verbatim>\<open>alice\<close> has a stored row and no current version; \<^verbatim>\<open>createRelations\<close> does
  not skip the relation from \<^verbatim>\<open>alice\<close> to \<^verbatim>\<open>bob\<close> but creates it, current, on the
  superseded row, and returns it.
\<close>

theorem createRelations_accepts_superseded_endpoint:
  "saveGraph (getGraphAtTime 1030 small_world 0) small_world = Inr restored_world
   \<and> getEntity ''alice'' restored_world = None
   \<and> current_nodes restored_world ''alice'' = []
   \<and> createRelations [likes] restored_world
       = Inr ([relationshipToRelation likes_edge ''alice'' ''bob'' 1090],
              restored_world\<lparr>edges := edges restored_world @ [likes_edge],
                               ticks := 10, draws := 7\<rparr>)"
  using restored_world_reached
  by (simp add: getEntity_def current_nodes_def restored_world_def likes_def likes_edge_def
        example_defs write_defs Let_def)

lemma product_empty_iff: "List.product xs ys = [] \<longleftrightarrow> xs = [] \<or> ys = []"
  by (induction xs) auto

text \<open>
  What the check does for one relation of the batch: when no stored row has the name of one
  endpoint, nothing is written or returned for the relation and the loop goes on; when
  both names have a stored row, of whatever version, a current relationship is created for
  every pair of rows with the two names.
\<close>

lemma createRelations_check_is_by_name:
  "(nodes_named w (ri_from relation) = [] \<or> nodes_named w (ri_to relation) = [] \<longrightarrow>
      (\<exists>w'. createRelations_loop (relation # rest) created w
               = createRelations_loop rest created w'
             \<and> nodes w' = nodes w \<and> edges w' = edges w))
   \<and> (nodes_named w (ri_from relation) \<noteq> [] \<and> nodes_named w (ri_to relation) \<noteq> [] \<longrightarrow>
      (\<exists>w' rel props. createRelations_loop (relation # rest) created w
               = createRelations_loop rest (created @ [rel]) w'
             \<and> nodes w' = nodes w \<and> r_validTo props = None
             \<and> edges w' = edges w
                  @ map (\<lambda>(f, t). props\<lparr>r_start := elem f, r_end := elem t\<rparr>)
                      (List.product (nodes_named w (ri_from relation))
                         (nodes_named w (ri_to relation)))))"
proof (intro conjI impI)
  obtain now w1 where now: "Date_now w = (now, w1)" by (cases "Date_now w")
  obtain relationId w2 where uid: "uuidv4 w1 = (relationId, w2)" by (cases "uuidv4 w1")
  have w2: "nodes w2 = nodes w" "edges w2 = edges w"
    using Date_now_store [OF now] uuidv4_store [OF uid] by simp_all
  then have named: "nodes_named w2 nm = nodes_named w nm" for nm
    by (simp add: nodes_named_def)
  {
    assume "nodes_named w (ri_from relation) = [] \<or> nodes_named w (ri_to relation) = []"
    then have "List.product (nodes_named w2 (ri_from relation))
                 (nodes_named w2 (ri_to relation)) = []"
      by (simp add: named product_empty_iff)
    then have "createRelations_loop (relation # rest) created w
               = createRelations_loop rest created w2"
      by (simp add: now uid Let_def)
    with w2 show "\<exists>w'. createRelations_loop (relation # rest) created w
                        = createRelations_loop rest created w'
                      \<and> nodes w' = nodes w \<and> edges w' = edges w"
      by blast
  }
  {
    assume both: "nodes_named w (ri_from relation) \<noteq> [] \<and> nodes_named w (ri_to relation) \<noteq> []"
    let ?froms = "nodes_named w2 (ri_from relation)"
    let ?tos = "nodes_named w2 (ri_to relation)"
    let ?props = "new_relation_props relation relationId now"
    let ?w3 = "create_edges ?froms ?tos ?props w2"
    obtain now' w4 where now': "Date_now ?w3 = (now', w4)" by (cases "Date_now ?w3")
    from both obtain f fs t ts where ft: "?froms = f # fs" "?tos = t # ts"
      by (cases ?froms; cases ?tos) (auto simp: named)
    then have prod: "List.product ?froms ?tos = (f, t) # map (Pair f) ts @ List.product fs ?tos"
      by simp
    have "createRelations_loop (relation # rest) created w
          = createRelations_loop rest
              (created @ [relationshipToRelation ?props (n_name f) (n_name t) now']) w4"
      by (simp add: now uid Let_def prod now' del: product.simps)
    moreover have "nodes w4 = nodes w"
      using Date_now_store [OF now'] w2 by simp
    moreover have "edges w4 = edges w
                     @ map (\<lambda>(f, t). ?props\<lparr>r_start := elem f, r_end := elem t\<rparr>)
                         (List.product (nodes_named w (ri_from relation))
                            (nodes_named w (ri_to relation)))"
      using Date_now_store [OF now'] w2 by (simp add: create_edges_def named)
    moreover have "r_validTo ?props = None"
      by (simp add: new_relation_props_def)
    ultimately
    show "\<exists>w' rel props. createRelations_loop (relation # rest) created w
               = createRelations_loop rest (created @ [rel]) w'
             \<and> nodes w' = nodes w \<and> r_validTo props = None
             \<and> edges w' = edges w
                  @ map (\<lambda>(f, t). props\<lparr>r_start := elem f, r_end := elem t\<rparr>)
                      (List.product (nodes_named w (ri_from relation))
                         (nodes_named w (ri_to relation)))"
      by blast
  }
qed

text \<open>
  In the small store, reached by the write operations alone, \<^verbatim>\<open>alice\<close> has a superseded
  and a current row: \<^verbatim>\<open>createRelations\<close> attaches a current relationship to each of them.
\<close>

lemma createRelations_on_every_version:
  "map (\<lambda>r. (r_start r, r_end r, r_relationType r, r_validTo r))
     (edges (snd (createRelations_loop [likes] [] small_world)))
   = [(0, 1, ''knows'', Some 1040), (2, 1, ''knows'', None),
      (0, 1, ''likes'', None), (2, 1, ''likes'', None)]"
  by (simp add: likes_def example_defs write_defs Let_def)

end
